theory Spec2Isabelle
  imports Main "HOL-Library.Multiset"
begin

section \<open>The news backend (src/server.js) as state-passing functions\<close>

text \<open>
  The server is one Express application over two Sequelize models, \<open>User\<close> and
  \<open>Content\<close>, stored in PostgreSQL. Every route handler becomes a function from the
  request and the tables to the response (status code and JSON body) and the tables
  afterwards; the \<open>catch\<close> of a handler is its 500 branch. The libraries the handlers call
  and whose code is not part of the repository (bcryptjs, jsonwebtoken, the text of a
  database error, JavaScript's arithmetic on numbers that are not safe integers) are
  parameters, collected in the record \<open>env\<close>.

  What the model takes as given:
  \<^item> a request is typed: the id of a path is an integer numeral, a field of a body or of
    a query string is absent or a value of the type of the column it is meant for, and
    the body of the update route may also hold JSON \<open>null\<close>; a string is a list of
    characters, one element per character;
  \<^item> the tables hold what the two models declare: an INTEGER column holds a 32-bit
    integer, a STRING column at most 255 characters, no text holds the character NUL, a
    column without \<open>allowNull: false\<close> may hold NULL; a statement is refused for what the
    declarations and the called functions refuse (see \<open>failure\<close> below);
  \<^item> the id sequences advance with every stored row; the ids that a refused INSERT
    consumes are not modelled;
  \<^item> Sequelize is read as version 6 does it: \<open>update\<close> writes a row, and its \<open>updatedAt\<close>,
    only when a value differs from the stored one, \<open>increment\<close> writes the counter and
    \<open>updatedAt\<close>, and the primary key and the timestamps of a stored row cannot be set
    through \<open>update\<close>.
\<close>

subsection \<open>JSON values\<close>

datatype json =
    JNull
  | JNum int
  | JStr string
  | JArr "json list"
  | JObj "(string \<times> json) list"

type_synonym response = "nat \<times> json"

text \<open>\<open>mentions k j\<close>: the attribute name \<open>k\<close> occurs in \<open>j\<close>, at any depth.\<close>

primrec mentions :: "string \<Rightarrow> json \<Rightarrow> bool" where
  "mentions k JNull = False"
| "mentions k (JNum n) = False"
| "mentions k (JStr s) = False"
| "mentions k (JArr js) = list_ex id (map (mentions k) js)"
| "mentions k (JObj kvs) = list_ex (\<lambda>kv. fst kv = k \<or> snd kv) (map (map_prod id (mentions k)) kvs)"

definition opt_str :: "string option \<Rightarrow> json" where
  "opt_str v = (case v of None \<Rightarrow> JNull | Some s \<Rightarrow> JStr s)"

definition opt_num :: "int option \<Rightarrow> json" where
  "opt_num v = (case v of None \<Rightarrow> JNull | Some n \<Rightarrow> JNum n)"

definition opt_strs :: "string list option \<Rightarrow> json" where
  "opt_strs v = (case v of None \<Rightarrow> JNull | Some ss \<Rightarrow> JArr (map JStr ss))"

subsection \<open>The tables (lines 30-120)\<close>

text \<open>
  Columns keep their source names, prefixed where two models share one. A column that the
  model declares \<open>allowNull: false\<close> always holds a value; a column of the content model
  without that declaration is optional, \<open>None\<close> being NULL. The ENUM columns hold strings,
  checked against the ENUM's list when a row is written. Timestamps (\<open>createdAt\<close>,
  \<open>updatedAt\<close>, which Sequelize adds to every model) are natural numbers, the time of the
  request that wrote them.
\<close>

record user_row =
  u_id :: int
  username :: string
  email :: string
  password :: string
  role :: string
  profile :: json
  u_createdAt :: nat
  u_updatedAt :: nat

record content_row =
  c_id :: int
  title :: string
  content :: string
  ctype :: string
  category :: "string option"
  tags :: "string list option"
  status :: "string option"
  featuredImage :: "string option"
  videoUrl :: "string option"
  readTime :: "int option"
  views :: "int option"
  publisherId :: int
  createdAt :: nat
  updatedAt :: nat

text \<open>The two tables and their autoIncrement sequences.\<close>

record store =
  users :: "user_row list"
  contents :: "content_row list"
  next_user_id :: int
  next_content_id :: int

definition empty_store :: store where
  "empty_store = \<lparr>users = [], contents = [], next_user_id = 1, next_content_id = 1\<rparr>"

definition role_values :: "string list" where
  "role_values = [''publisher'', ''user'']"

definition type_values :: "string list" where
  "type_values = [''newspaper'', ''journal'', ''article'', ''video_script'']"

definition status_values :: "string list" where
  "status_values = [''draft'', ''published'', ''archived'']"

text \<open>What the column types admit: INTEGER, text, and STRING, which is VARCHAR(255).\<close>

definition int4 :: "int \<Rightarrow> bool" where
  "int4 n \<longleftrightarrow> - 2147483648 \<le> n \<and> n \<le> 2147483647"

definition pg_text :: "string \<Rightarrow> bool" where
  "pg_text s \<longleftrightarrow> CHR 0x00 \<notin> set s"

definition varchar255 :: "string \<Rightarrow> bool" where
  "varchar255 s \<longleftrightarrow> pg_text s \<and> length s \<le> 255"

text \<open>
  What the primary keys, the INTEGER type of the ids and of the view counter, and the
  unique email column guarantee of the tables. Every handler keeps it (lemma \<open>serve_wf\<close>
  below).
\<close>

definition wf_store :: "store \<Rightarrow> bool" where
  "wf_store st \<longleftrightarrow>
     distinct (map u_id (users st)) \<and>
     distinct (map email (users st)) \<and>
     distinct (map c_id (contents st)) \<and>
     list_all (\<lambda>u. u_id u < next_user_id st) (users st) \<and>
     list_all (\<lambda>c. c_id c < next_content_id st) (contents st) \<and>
     list_all (\<lambda>u. int4 (u_id u)) (users st) \<and>
     list_all (\<lambda>c. int4 (c_id c)) (contents st) \<and>
     list_all (\<lambda>c. case views c of None \<Rightarrow> True | Some v \<Rightarrow> int4 v) (contents st)"

subsection \<open>Failures of a library call, and the libraries\<close>

text \<open>
  Each handler body is a \<open>try\<close> block whose \<open>catch\<close> answers 500 with the message of the
  error. The failures modelled are the ones the source's own declarations name: a missing
  value for an \<open>allowNull: false\<close> column, a value outside an ENUM, a second use of the
  unique email, a \<open>publisherId\<close> that references no user, an integer outside the INTEGER
  range (also the id of a path, which is compared with an INTEGER column), a string longer
  than its STRING column or holding NUL, an exhausted id sequence; and the ones of the
  calls themselves: bcryptjs refuses an undefined argument, Sequelize refuses an undefined
  value in a \<open>where\<close>, the database refuses a negative LIMIT or OFFSET, one beyond 64 bits,
  and one that is not a number.
\<close>

datatype failure =
    NotNull string
  | EnumViolation string
  | UniqueViolation string
  | ForeignKeyViolation string
  | OutOfRange string
  | TooLong string
  | InvalidByte string
  | SequenceExhausted string
  | IllegalArguments
  | InvalidWhere string
  | NegativeLimit
  | NotANumber

record claims =
  cl_id :: int
  cl_username :: string
  cl_role :: string

text \<open>
  \<open>bcrypt_hash p 10\<close> is \<open>bcrypt.hash(p, 10)\<close> (with the salt it draws) and
  \<open>bcrypt_compare p h\<close> is \<open>bcrypt.compare(p, h)\<close>; \<open>jwt_sign c\<close> is
  \<open>jwt.sign(c, JWT_SECRET, {expiresIn: '24h'})\<close> and \<open>jwt_verify t\<close> is the payload
  \<open>jwt.verify(t, JWT_SECRET, ...)\<close> hands to its callback, \<open>None\<close> when it hands an error
  (bad signature, expired); \<open>message_of\<close> is the \<open>error.message\<close> of a failure.
  \<open>js_numbers page limit\<close> is the pair \<open>(parseInt(limit), parseInt((page - 1) * limit))\<close>
  as JavaScript computes it on doubles from the numerals of a query string, \<open>None\<close> when
  one of the two is not a number; the model asks for it only when a numeral or the
  product is not a safe integer, where the arithmetic of doubles is not that of integers.
\<close>

record env =
  bcrypt_hash :: "string \<Rightarrow> nat \<Rightarrow> string"
  bcrypt_compare :: "string \<Rightarrow> string \<Rightarrow> bool"
  jwt_sign :: "claims \<Rightarrow> string"
  jwt_verify :: "string \<Rightarrow> claims option"
  message_of :: "failure \<Rightarrow> string"
  js_numbers :: "int \<Rightarrow> int \<Rightarrow> (int \<times> int) option"

definition error_body :: "string \<Rightarrow> json" where
  "error_body msg = JObj [(''error'', JStr msg)]"

definition server_error :: "env \<Rightarrow> failure \<Rightarrow> response" where
  "server_error e f = (500, error_body (message_of e f))"

text \<open>The first refusal among the checks of one statement, if any.\<close>

fun first_failure :: "failure option list \<Rightarrow> failure option" where
  "first_failure [] = None"
| "first_failure (Some f # fs) = Some f"
| "first_failure (None # fs) = first_failure fs"

definition refuse_if :: "bool \<Rightarrow> failure \<Rightarrow> failure option" where
  "refuse_if b f = (if b then Some f else None)"

definition check_text :: "string \<Rightarrow> string \<Rightarrow> failure option" where
  "check_text col s = refuse_if (\<not> pg_text s) (InvalidByte col)"

definition check_varchar :: "string \<Rightarrow> string \<Rightarrow> failure option" where
  "check_varchar col s =
     first_failure [check_text col s, refuse_if (255 < length s) (TooLong col)]"

definition check_int4 :: "string \<Rightarrow> int \<Rightarrow> failure option" where
  "check_int4 col n = refuse_if (\<not> int4 n) (OutOfRange col)"

definition check_enum :: "string \<Rightarrow> string list \<Rightarrow> string \<Rightarrow> failure option" where
  "check_enum col vs s = refuse_if (s \<notin> set vs) (EnumViolation col)"

definition on_some :: "'a option \<Rightarrow> ('a \<Rightarrow> failure option) \<Rightarrow> failure option" where
  "on_some v chk = (case v of None \<Rightarrow> None | Some x \<Rightarrow> chk x)"

subsection \<open>Middleware (lines 123-145)\<close>

text \<open>\<open>s.split(' ')\<close>: the pieces of \<open>s\<close> between single spaces; never the empty list.\<close>

fun split_space :: "string \<Rightarrow> string list" where
  "split_space [] = [[]]"
| "split_space (c # cs) =
     (if c = CHR '' '' then [] # split_space cs
      else (case split_space cs of
              [] \<Rightarrow> [[c]]
            | w # ws \<Rightarrow> (c # w) # ws))"

text \<open>
  \<open>authHeader && authHeader.split(' ')[1]\<close>, read for its truth value as \<open>!token\<close> does:
  \<open>None\<close> when the header is absent or empty, when it has no second piece, or when the
  second piece is the empty string.
\<close>

definition bearer_token :: "string option \<Rightarrow> string option" where
  "bearer_token authHeader =
     (case authHeader of
        None \<Rightarrow> None
      | Some h \<Rightarrow>
          (if h = [] then None
           else (case split_space h of
                   _ # t # _ \<Rightarrow> (if t = [] then None else Some t)
                 | _ \<Rightarrow> None)))"

definition authenticateToken :: "env \<Rightarrow> string option \<Rightarrow> response + claims" where
  "authenticateToken e authHeader =
     (case bearer_token authHeader of
        None \<Rightarrow> Inl (401, error_body ''Access token required'')
      | Some token \<Rightarrow>
          (case jwt_verify e token of
             None \<Rightarrow> Inl (403, error_body ''Invalid token'')
           | Some user \<Rightarrow> Inr user))"

definition requirePublisher :: "claims \<Rightarrow> response + unit" where
  "requirePublisher user =
     (if cl_role user \<noteq> ''publisher'' then Inl (403, error_body ''Publisher access required'')
      else Inr ())"

subsection \<open>Request bodies and query strings\<close>

text \<open>
  A body or query field is absent (\<open>None\<close>, JavaScript's \<open>undefined\<close>) or carries a value
  of the type of the column it is meant for; the numerals of \<open>page\<close> and \<open>limit\<close> are
  integers of any size. \<open>content_body\<close> is the body of the create route, which reads eight
  of its fields (a JSON \<open>null\<close> in one of them is stored or refused as an absent field is). \<open>update_body\<close> is the body of the update route, which hands all of it to
  \<open>content.update\<close>: each field is absent, JSON \<open>null\<close>, or a value. The primary key and the
  timestamps are not fields of it: Sequelize ignores them in the \<open>update\<close> of a stored row.
\<close>

record register_body =
  reg_username :: "string option"
  reg_email :: "string option"
  reg_password :: "string option"
  reg_role :: "string option"

record login_body =
  login_email :: "string option"
  login_password :: "string option"

record content_body =
  b_title :: "string option"
  b_content :: "string option"
  b_type :: "string option"
  b_category :: "string option"
  b_tags :: "string list option"
  b_status :: "string option"
  b_featuredImage :: "string option"
  b_videoUrl :: "string option"
  b_readTime :: "int option"
  b_views :: "int option"
  b_publisherId :: "int option"

datatype 'a json_field = Absent | Null | Val 'a

record update_body =
  p_title :: "string json_field"
  p_content :: "string json_field"
  p_type :: "string json_field"
  p_category :: "string json_field"
  p_tags :: "string list json_field"
  p_status :: "string json_field"
  p_featuredImage :: "string json_field"
  p_videoUrl :: "string json_field"
  p_readTime :: "int json_field"
  p_views :: "int json_field"
  p_publisherId :: "int json_field"

record query =
  q_type :: "string option"
  q_category :: "string option"
  q_page :: "int option"
  q_limit :: "int option"

definition empty_body :: content_body where
  "empty_body = \<lparr>b_title = None, b_content = None, b_type = None, b_category = None,
     b_tags = None, b_status = None, b_featuredImage = None, b_videoUrl = None,
     b_readTime = None, b_views = None, b_publisherId = None\<rparr>"

definition empty_update :: update_body where
  "empty_update = \<lparr>p_title = Absent, p_content = Absent, p_type = Absent, p_category = Absent,
     p_tags = Absent, p_status = Absent, p_featuredImage = Absent, p_videoUrl = Absent,
     p_readTime = Absent, p_views = Absent, p_publisherId = Absent\<rparr>"

subsection \<open>The model calls\<close>

text \<open>\<open>x = d\<close> in a destructuring pattern: the default \<open>d\<close> when the field is undefined.\<close>

definition or_default :: "'a option \<Rightarrow> 'a \<Rightarrow> 'a" where
  "or_default v d = (case v of None \<Rightarrow> d | Some x \<Rightarrow> x)"

text \<open>JavaScript's truth value of an optional string: undefined and \<open>''\<close> are false.\<close>

definition truthy :: "string option \<Rightarrow> bool" where
  "truthy v = (case v of None \<Rightarrow> False | Some s \<Rightarrow> s \<noteq> [])"

text \<open>
  A string of a \<open>where\<close> is written into the statement, and Sequelize writes the
  character NUL as a backslash and a zero.
\<close>

definition where_string :: "string \<Rightarrow> string" where
  "where_string s = concat (map (\<lambda>c. if c = CHR 0x00 then [CHR 0x5C, CHR ''0''] else [c]) s)"

definition User_findOne_email :: "string \<Rightarrow> store \<Rightarrow> user_row option" where
  "User_findOne_email em st = find (\<lambda>u. email u = where_string em) (users st)"

definition User_findOne_role :: "string \<Rightarrow> store \<Rightarrow> user_row option" where
  "User_findOne_role r st = find (\<lambda>u. role u = r) (users st)"

definition User_findByPk :: "int \<Rightarrow> store \<Rightarrow> user_row option" where
  "User_findByPk i st = find (\<lambda>u. u_id u = i) (users st)"

text \<open>\<open>User.create({username, email, password, role})\<close>; \<open>profile\<close> takes its default.\<close>

definition User_create ::
  "nat \<Rightarrow> string option \<Rightarrow> string option \<Rightarrow> string \<Rightarrow> string \<Rightarrow> store \<Rightarrow> failure + (user_row \<times> store)" where
  "User_create now un em pw rl st =
     (case un of
        None \<Rightarrow> Inl (NotNull ''username'')
      | Some n \<Rightarrow>
          (case em of
             None \<Rightarrow> Inl (NotNull ''email'')
           | Some m \<Rightarrow>
               (case first_failure
                       [check_varchar ''username'' n, check_varchar ''email'' m,
                        check_varchar ''password'' pw, check_enum ''role'' role_values rl,
                        refuse_if (\<not> int4 (next_user_id st)) (SequenceExhausted ''users''),
                        refuse_if (m \<in> set (map email (users st))) (UniqueViolation ''email'')] of
                  Some f \<Rightarrow> Inl f
                | None \<Rightarrow>
                    (let user = \<lparr>u_id = next_user_id st, username = n, email = m, password = pw,
                                   role = rl, profile = JObj [], u_createdAt = now, u_updatedAt = now\<rparr>
                     in Inr (user, st\<lparr>users := users st @ [user],
                                        next_user_id := next_user_id st + 1\<rparr>)))))"

text \<open>
  \<open>Content.create({title, content, type, category, tags, featuredImage, videoUrl, readTime,
  publisherId})\<close>; \<open>status\<close> and \<open>views\<close> take their defaults.
\<close>

definition Content_create ::
  "nat \<Rightarrow> string option \<Rightarrow> string option \<Rightarrow> string option \<Rightarrow> string option \<Rightarrow> string list \<Rightarrow>
   string option \<Rightarrow> string option \<Rightarrow> int option \<Rightarrow> int \<Rightarrow> store \<Rightarrow> failure + (content_row \<times> store)" where
  "Content_create now ti co ty ca tg fi vu rt pid st =
     (case ti of
        None \<Rightarrow> Inl (NotNull ''title'')
      | Some t \<Rightarrow>
          (case co of
             None \<Rightarrow> Inl (NotNull ''content'')
           | Some c \<Rightarrow>
               (case ty of
                  None \<Rightarrow> Inl (NotNull ''type'')
                | Some y \<Rightarrow>
                    (case first_failure
                            [check_varchar ''title'' t, check_text ''content'' c,
                             check_enum ''type'' type_values y,
                             on_some ca (check_varchar ''category''),
                             first_failure (map (check_varchar ''tags'') tg),
                             on_some fi (check_varchar ''featuredImage''),
                             on_some vu (check_varchar ''videoUrl''),
                             on_some rt (check_int4 ''readTime''),
                             check_int4 ''publisherId'' pid,
                             refuse_if (\<not> int4 (next_content_id st)) (SequenceExhausted ''contents''),
                             refuse_if (pid \<notin> set (map u_id (users st)))
                               (ForeignKeyViolation ''publisherId'')] of
                       Some f \<Rightarrow> Inl f
                     | None \<Rightarrow>
                         (let row = \<lparr>c_id = next_content_id st, title = t, content = c, ctype = y,
                                       category = ca, tags = Some tg, status = Some ''draft'',
                                       featuredImage = fi, videoUrl = vu, readTime = rt,
                                       views = Some 0, publisherId = pid,
                                       createdAt = now, updatedAt = now\<rparr>
                          in Inr (row, st\<lparr>contents := contents st @ [row],
                                            next_content_id := next_content_id st + 1\<rparr>))))))"

text \<open>
  \<open>Content.findOne({where: {id, status: 'published'}})\<close>, \<open>id\<close> being the id of the path:
  the database compares it with the INTEGER column and refuses one outside the range.
\<close>

definition Content_findOne_published :: "int \<Rightarrow> store \<Rightarrow> failure + content_row option" where
  "Content_findOne_published i st =
     (if \<not> int4 i then Inl (OutOfRange ''id'')
      else Inr (find (\<lambda>c. c_id c = i \<and> status c = Some ''published'') (contents st)))"

text \<open>
  \<open>Content.findOne({where: {id, publisherId}})\<close>, \<open>id\<close> being the id of the path and
  \<open>publisherId\<close> the number in the token.
\<close>

definition Content_findOne_owned :: "int \<Rightarrow> int \<Rightarrow> store \<Rightarrow> failure + content_row option" where
  "Content_findOne_owned i pid st =
     (if \<not> int4 i then Inl (OutOfRange ''id'')
      else Inr (find (\<lambda>c. c_id c = i \<and> publisherId c = pid) (contents st)))"

text \<open>
  \<open>order: [['createdAt', 'DESC']]\<close>: newest first. Among rows of one creation time the
  database's order is its own; the model takes one, and the properties below are stated
  for every order of such rows.
\<close>

definition newest_first :: "content_row list \<Rightarrow> content_row list" where
  "newest_first cs = rev (sort_key createdAt cs)"

text \<open>
  The values of a body laid over a stored row, as \<open>instance.set\<close> does: an absent field
  leaves the column, \<open>null\<close> empties it, a value fills it.
\<close>

definition on_val :: "'a json_field \<Rightarrow> ('a \<Rightarrow> failure option) \<Rightarrow> failure option" where
  "on_val v chk = (case v of Val x \<Rightarrow> chk x | _ \<Rightarrow> None)"

definition set_required :: "'a json_field \<Rightarrow> 'a \<Rightarrow> 'a" where
  "set_required v old = (case v of Val x \<Rightarrow> x | _ \<Rightarrow> old)"

definition set_nullable :: "'a json_field \<Rightarrow> 'a option \<Rightarrow> 'a option" where
  "set_nullable v old = (case v of Absent \<Rightarrow> old | Null \<Rightarrow> None | Val x \<Rightarrow> Some x)"

definition apply_body :: "update_body \<Rightarrow> content_row \<Rightarrow> content_row" where
  "apply_body b c =
     c\<lparr>title := set_required (p_title b) (title c),
       content := set_required (p_content b) (content c),
       ctype := set_required (p_type b) (ctype c),
       category := set_nullable (p_category b) (category c),
       tags := set_nullable (p_tags b) (tags c),
       status := set_nullable (p_status b) (status c),
       featuredImage := set_nullable (p_featuredImage b) (featuredImage c),
       videoUrl := set_nullable (p_videoUrl b) (videoUrl c),
       readTime := set_nullable (p_readTime b) (readTime c),
       views := set_nullable (p_views b) (views c),
       publisherId := set_required (p_publisherId b) (publisherId c)\<rparr>"

text \<open>
  \<open>content.update(body)\<close> on the stored row \<open>c\<close>. Sequelize refuses \<open>null\<close> for a column
  declared \<open>allowNull: false\<close>; when no value differs from the stored one it sends no
  statement; otherwise the database checks the values of the body against the column types
  and the foreign key, and the row of that primary key is written, with \<open>updatedAt\<close>.
\<close>

definition Content_update ::
  "nat \<Rightarrow> content_row \<Rightarrow> update_body \<Rightarrow> store \<Rightarrow> failure + (content_row \<times> store)" where
  "Content_update now c b st =
     (case first_failure
             [refuse_if (p_title b = Null) (NotNull ''title''),
              refuse_if (p_content b = Null) (NotNull ''content''),
              refuse_if (p_type b = Null) (NotNull ''type''),
              refuse_if (p_publisherId b = Null) (NotNull ''publisherId'')] of
        Some f \<Rightarrow> Inl f
      | None \<Rightarrow>
          (let c' = apply_body b c in
           if c' = c then Inr (c, st)
           else
             (case first_failure
                     [on_val (p_title b) (check_varchar ''title''),
                      on_val (p_content b) (check_text ''content''),
                      on_val (p_type b) (check_enum ''type'' type_values),
                      on_val (p_category b) (check_varchar ''category''),
                      on_val (p_tags b) (\<lambda>ts. first_failure (map (check_varchar ''tags'') ts)),
                      on_val (p_status b) (check_enum ''status'' status_values),
                      on_val (p_featuredImage b) (check_varchar ''featuredImage''),
                      on_val (p_videoUrl b) (check_varchar ''videoUrl''),
                      on_val (p_readTime b) (check_int4 ''readTime''),
                      on_val (p_views b) (check_int4 ''views''),
                      on_val (p_publisherId b) (check_int4 ''publisherId''),
                      refuse_if (publisherId c' \<noteq> publisherId c \<and>
                                 publisherId c' \<notin> set (map u_id (users st)))
                        (ForeignKeyViolation ''publisherId'')] of
                Some f \<Rightarrow> Inl f
              | None \<Rightarrow>
                  (let c'' = c'\<lparr>updatedAt := now\<rparr>
                   in Inr (c'', st\<lparr>contents :=
                                    map (\<lambda>r. if c_id r = c_id c then c'' else r) (contents st)\<rparr>)))))"

text \<open>
  \<open>content.increment('views')\<close>: \<open>views = views + 1\<close> on the row of that primary key. NULL
  plus one is NULL; a sum outside the INTEGER range is refused and nothing is written.
\<close>

definition bump_views :: "nat \<Rightarrow> content_row \<Rightarrow> content_row" where
  "bump_views now r = r\<lparr>views := map_option (\<lambda>v. v + 1) (views r), updatedAt := now\<rparr>"

definition Content_increment_views ::
  "nat \<Rightarrow> content_row \<Rightarrow> store \<Rightarrow> failure + (content_row \<times> store)" where
  "Content_increment_views now c st =
     (if list_ex (\<lambda>r. c_id r = c_id c \<and> (case views r of None \<Rightarrow> False | Some v \<Rightarrow> \<not> int4 (v + 1)))
           (contents st)
      then Inl (OutOfRange ''views'')
      else Inr (bump_views now c,
                st\<lparr>contents := map (\<lambda>r. if c_id r = c_id c then bump_views now r else r)
                                  (contents st)\<rparr>))"

text \<open>
  \<open>Content.findAll({where, order, limit, offset})\<close> of the public list: \<open>where\<close> always has
  \<open>status: 'published'\<close>, and \<open>type\<close> and \<open>category\<close> when given. LIMIT and OFFSET are read
  as 64-bit integers and must not be negative.
\<close>

definition Content_findAll_published ::
  "string option \<Rightarrow> string option \<Rightarrow> int \<Rightarrow> int \<Rightarrow> store \<Rightarrow> failure + content_row list" where
  "Content_findAll_published ty ca lim off st =
     (if (case ty of None \<Rightarrow> False | Some y \<Rightarrow> y \<notin> set type_values) then Inl (EnumViolation ''type'')
      else if 9223372036854775807 < lim \<or> 9223372036854775807 < off then Inl (OutOfRange ''limit'')
      else if lim < 0 \<or> off < 0 then Inl NegativeLimit
      else Inr (take (nat lim) (drop (nat off)
             (newest_first
                (filter (\<lambda>c. status c = Some ''published'' \<and>
                              (case ty of None \<Rightarrow> True | Some y \<Rightarrow> ctype c = y) \<and>
                              (case ca of None \<Rightarrow> True | Some g \<Rightarrow> category c = Some (where_string g)))
                   (contents st))))))"

text \<open>\<open>Content.findAll({where: {publisherId}, order})\<close>\<close>

definition Content_findAll_owned :: "int \<Rightarrow> store \<Rightarrow> content_row list" where
  "Content_findAll_owned pid st = newest_first (filter (\<lambda>c. publisherId c = pid) (contents st))"

text \<open>
  \<open>limit: parseInt(limit), offset: parseInt((page - 1) * limit)\<close>. On safe integers
  (magnitude below \<open>2^53\<close>) JavaScript's numbers compute as the integers do; beyond them
  the result is the parameter \<open>js_numbers\<close>, \<open>None\<close> when what it computes is not a number
  (the statement is then refused).
\<close>

definition safe_integer :: "int \<Rightarrow> bool" where
  "safe_integer n \<longleftrightarrow> - 9007199254740991 \<le> n \<and> n \<le> 9007199254740991"

definition limit_offset :: "env \<Rightarrow> int \<Rightarrow> int \<Rightarrow> (int \<times> int) option" where
  "limit_offset e page limit =
     (if safe_integer page \<and> safe_integer limit \<and> safe_integer ((page - 1) * limit)
      then Some (limit, (page - 1) * limit)
      else js_numbers e page limit)"

subsection \<open>Rows as JSON\<close>

definition user_attrs :: "user_row \<Rightarrow> (string \<times> json) list" where
  "user_attrs u =
     [(''id'', JNum (u_id u)), (''username'', JStr (username u)), (''email'', JStr (email u)),
      (''password'', JStr (password u)), (''role'', JStr (role u)), (''profile'', profile u),
      (''createdAt'', JNum (int (u_createdAt u))), (''updatedAt'', JNum (int (u_updatedAt u)))]"

definition content_attrs :: "content_row \<Rightarrow> (string \<times> json) list" where
  "content_attrs c =
     [(''id'', JNum (c_id c)), (''title'', JStr (title c)), (''content'', JStr (content c)),
      (''type'', JStr (ctype c)), (''category'', opt_str (category c)),
      (''tags'', opt_strs (tags c)), (''status'', opt_str (status c)),
      (''featuredImage'', opt_str (featuredImage c)), (''videoUrl'', opt_str (videoUrl c)),
      (''readTime'', opt_num (readTime c)), (''views'', opt_num (views c)),
      (''publisherId'', JNum (publisherId c)),
      (''createdAt'', JNum (int (createdAt c))), (''updatedAt'', JNum (int (updatedAt c)))]"

text \<open>\<open>attributes: [...]\<close> and \<open>attributes: {exclude: [...]}\<close>\<close>

definition only_attrs :: "string list \<Rightarrow> (string \<times> json) list \<Rightarrow> (string \<times> json) list" where
  "only_attrs ks kvs = filter (\<lambda>kv. fst kv \<in> set ks) kvs"

definition exclude_attrs :: "string list \<Rightarrow> (string \<times> json) list \<Rightarrow> (string \<times> json) list" where
  "exclude_attrs ks kvs = filter (\<lambda>kv. fst kv \<notin> set ks) kvs"

text \<open>\<open>include: [{model: User, attributes: ['id', 'username', 'profile']}]\<close>\<close>

definition content_with_user :: "store \<Rightarrow> content_row \<Rightarrow> json" where
  "content_with_user st c =
     JObj (content_attrs c @
       [(''User'', (case User_findByPk (publisherId c) st of
                      None \<Rightarrow> JNull
                    | Some u \<Rightarrow> JObj (only_attrs [''id'', ''username'', ''profile''] (user_attrs u))))])"

subsection \<open>Route handlers (lines 195-416)\<close>

definition home :: response where
  "home = (200, JObj [(''message'', JStr ''News Publishing Platform API is running!''),
     (''features'', JArr [JStr ''User Registration'', JStr ''Publisher Dashboard'',
                          JStr ''Multiple Content Types'', JStr ''JWT Authentication'']),
     (''status'', JStr ''Active'')])"

text \<open>\<open>{ id: user.id, username: user.username, role: user.role }\<close>, the payload signed.\<close>

definition claims_of :: "user_row \<Rightarrow> claims" where
  "claims_of user = \<lparr>cl_id = u_id user, cl_username = username user, cl_role = role user\<rparr>"

text \<open>\<open>{ message, token, user: { id, username, email, role } }\<close>, the body of both auth routes.\<close>

definition auth_body :: "string \<Rightarrow> string \<Rightarrow> user_row \<Rightarrow> json" where
  "auth_body msg token user =
     JObj [(''message'', JStr msg), (''token'', JStr token),
           (''user'', JObj [(''id'', JNum (u_id user)), (''username'', JStr (username user)),
                            (''email'', JStr (email user)), (''role'', JStr (role user))])]"

definition register :: "env \<Rightarrow> nat \<Rightarrow> register_body \<Rightarrow> store \<Rightarrow> response \<times> store" where
  "register e now body st =
     (let rl = or_default (reg_role body) ''user'' in
      case reg_email body of
        None \<Rightarrow> (server_error e (InvalidWhere ''email''), st)
      | Some em \<Rightarrow>
          (case User_findOne_email em st of
             Some existingUser \<Rightarrow> ((400, error_body ''User already exists''), st)
           | None \<Rightarrow>
               (case reg_password body of
                  None \<Rightarrow> (server_error e IllegalArguments, st)
                | Some pw \<Rightarrow>
                    (let hashedPassword = bcrypt_hash e pw 10 in
                     case User_create now (reg_username body) (Some em) hashedPassword rl st of
                       Inl f \<Rightarrow> (server_error e f, st)
                     | Inr (user, st') \<Rightarrow>
                         ((201, auth_body ''User registered successfully''
                                  (jwt_sign e (claims_of user)) user), st')))))"

definition login :: "env \<Rightarrow> login_body \<Rightarrow> store \<Rightarrow> response \<times> store" where
  "login e body st =
     (case login_email body of
        None \<Rightarrow> (server_error e (InvalidWhere ''email''), st)
      | Some em \<Rightarrow>
          (case User_findOne_email em st of
             None \<Rightarrow> ((400, error_body ''Invalid credentials''), st)
           | Some user \<Rightarrow>
               (case login_password body of
                  None \<Rightarrow> (server_error e IllegalArguments, st)
                | Some pw \<Rightarrow>
                    (if \<not> bcrypt_compare e pw (password user)
                     then ((400, error_body ''Invalid credentials''), st)
                     else ((200, auth_body ''Login successful''
                                   (jwt_sign e (claims_of user)) user), st)))))"

definition get_contents :: "env \<Rightarrow> query \<Rightarrow> store \<Rightarrow> response \<times> store" where
  "get_contents e q st =
     (let page = or_default (q_page q) 1;
          limit = or_default (q_limit q) 10;
          where_type = (if truthy (q_type q) then q_type q else None);
          where_category = (if truthy (q_category q) then q_category q else None)
      in case limit_offset e page limit of
           None \<Rightarrow> (server_error e NotANumber, st)
         | Some (lim, off) \<Rightarrow>
             (case Content_findAll_published where_type where_category lim off st of
                Inl f \<Rightarrow> (server_error e f, st)
              | Inr cs \<Rightarrow> ((200, JArr (map (content_with_user st) cs)), st)))"

definition get_content :: "env \<Rightarrow> nat \<Rightarrow> int \<Rightarrow> store \<Rightarrow> response \<times> store" where
  "get_content e now i st =
     (case Content_findOne_published i st of
        Inl f \<Rightarrow> (server_error e f, st)
      | Inr None \<Rightarrow> ((404, error_body ''Content not found''), st)
      | Inr (Some c) \<Rightarrow>
          (case Content_increment_views now c st of
             Inl f \<Rightarrow> (server_error e f, st)
           | Inr (c', st') \<Rightarrow> ((200, content_with_user st' c'), st')))"

definition publisher_contents :: "claims \<Rightarrow> store \<Rightarrow> response \<times> store" where
  "publisher_contents user st =
     ((200, JArr (map (\<lambda>c. JObj (content_attrs c)) (Content_findAll_owned (cl_id user) st))), st)"

definition create_content :: "env \<Rightarrow> nat \<Rightarrow> claims \<Rightarrow> content_body \<Rightarrow> store \<Rightarrow> response \<times> store" where
  "create_content e now user body st =
     (case Content_create now (b_title body) (b_content body) (b_type body) (b_category body)
             (or_default (b_tags body) []) (b_featuredImage body) (b_videoUrl body)
             (b_readTime body) (cl_id user) st of
        Inl f \<Rightarrow> (server_error e f, st)
      | Inr (newContent, st') \<Rightarrow> ((201, JObj (content_attrs newContent)), st'))"

definition update_content ::
  "env \<Rightarrow> nat \<Rightarrow> claims \<Rightarrow> int \<Rightarrow> update_body \<Rightarrow> store \<Rightarrow> response \<times> store" where
  "update_content e now user i body st =
     (case Content_findOne_owned i (cl_id user) st of
        Inl f \<Rightarrow> (server_error e f, st)
      | Inr None \<Rightarrow> ((404, error_body ''Content not found''), st)
      | Inr (Some c) \<Rightarrow>
          (case Content_update now c body st of
             Inl f \<Rightarrow> (server_error e f, st)
           | Inr (c', st') \<Rightarrow> ((200, JObj (content_attrs c')), st')))"

definition publish_content :: "env \<Rightarrow> nat \<Rightarrow> claims \<Rightarrow> int \<Rightarrow> store \<Rightarrow> response \<times> store" where
  "publish_content e now user i st =
     (case Content_findOne_owned i (cl_id user) st of
        Inl f \<Rightarrow> (server_error e f, st)
      | Inr None \<Rightarrow> ((404, error_body ''Content not found''), st)
      | Inr (Some c) \<Rightarrow>
          (case Content_update now c (empty_update\<lparr>p_status := Val ''published''\<rparr>) st of
             Inl f \<Rightarrow> (server_error e f, st)
           | Inr (c', st') \<Rightarrow>
               ((200, JObj [(''message'', JStr ''Content published successfully''),
                            (''content'', JObj (content_attrs c'))]), st')))"

definition get_profile :: "claims \<Rightarrow> store \<Rightarrow> response \<times> store" where
  "get_profile user st =
     ((200, (case User_findByPk (cl_id user) st of
               None \<Rightarrow> JNull
             | Some u \<Rightarrow> JObj (exclude_attrs [''password''] (user_attrs u)))), st)"

subsection \<open>Routing\<close>

text \<open>
  The ten routes the application declares. The content id of a path is the integer its
  numeral denotes.
\<close>

datatype request =
    Home
  | Register register_body
  | Login login_body
  | GetContents query
  | GetContent int
  | PublisherContents
  | CreateContent content_body
  | UpdateContent int update_body
  | PublishContent int
  | Profile

text \<open>\<open>authenticateToken, requirePublisher\<close> before a handler, and \<open>authenticateToken\<close> alone.\<close>

definition publisher_only ::
  "env \<Rightarrow> string option \<Rightarrow> (claims \<Rightarrow> response \<times> store) \<Rightarrow> store \<Rightarrow> response \<times> store" where
  "publisher_only e authHeader handler st =
     (case authenticateToken e authHeader of
        Inl r \<Rightarrow> (r, st)
      | Inr user \<Rightarrow>
          (case requirePublisher user of
             Inl r \<Rightarrow> (r, st)
           | Inr _ \<Rightarrow> handler user))"

definition authenticated ::
  "env \<Rightarrow> string option \<Rightarrow> (claims \<Rightarrow> response \<times> store) \<Rightarrow> store \<Rightarrow> response \<times> store" where
  "authenticated e authHeader handler st =
     (case authenticateToken e authHeader of
        Inl r \<Rightarrow> (r, st)
      | Inr user \<Rightarrow> handler user)"

text \<open>One request: the time it arrives, its authorization header, its route and input.\<close>

fun serve :: "env \<Rightarrow> nat \<Rightarrow> string option \<Rightarrow> request \<Rightarrow> store \<Rightarrow> response \<times> store" where
  "serve e now h Home st = (home, st)"
| "serve e now h (Register body) st = register e now body st"
| "serve e now h (Login body) st = login e body st"
| "serve e now h (GetContents q) st = get_contents e q st"
| "serve e now h (GetContent i) st = get_content e now i st"
| "serve e now h PublisherContents st =
     publisher_only e h (\<lambda>user. publisher_contents user st) st"
| "serve e now h (CreateContent body) st =
     publisher_only e h (\<lambda>user. create_content e now user body st) st"
| "serve e now h (UpdateContent i body) st =
     publisher_only e h (\<lambda>user. update_content e now user i body st) st"
| "serve e now h (PublishContent i) st =
     publisher_only e h (\<lambda>user. publish_content e now user i st) st"
| "serve e now h Profile st = authenticated e h (\<lambda>user. get_profile user st) st"

subsection \<open>Bootstrap (lines 162-182)\<close>

text \<open>
  \<open>syncDatabase\<close>: when no user has the role publisher, the default publisher is created;
  a failure of the creation is logged and the tables stay as they are.
\<close>

definition syncDatabase :: "env \<Rightarrow> nat \<Rightarrow> store \<Rightarrow> store" where
  "syncDatabase e now st =
     (case User_findOne_role ''publisher'' st of
        Some existingPublisher \<Rightarrow> st
      | None \<Rightarrow>
          (let hashedPassword = bcrypt_hash e ''publisher123'' 10 in
           case User_create now (Some ''admin'') (Some ''admin@news.com'') hashedPassword
                  ''publisher'' st of
             Inl f \<Rightarrow> st
           | Inr (user, st') \<Rightarrow> st'))"

subsection \<open>Notions the properties are stated with\<close>

text \<open>The publisher-only routes: the four declared with both middlewares.\<close>

fun is_publisher_route :: "request \<Rightarrow> bool" where
  "is_publisher_route PublisherContents = True"
| "is_publisher_route (CreateContent b) = True"
| "is_publisher_route (UpdateContent i b) = True"
| "is_publisher_route (PublishContent i) = True"
| "is_publisher_route _ = False"







text \<open>No stored profile document has an attribute named \<open>password\<close>.\<close>

definition clean_profiles :: "store \<Rightarrow> bool" where
  "clean_profiles st = list_all (\<lambda>u. \<not> mentions ''password'' (profile u)) (users st)"

text \<open>The tables with every stored password blanked.\<close>

definition blank :: "user_row \<Rightarrow> user_row" where
  "blank u = u\<lparr>password := []\<rparr>"

definition scrub :: "store \<Rightarrow> store" where
  "scrub st = st\<lparr>users := map blank (users st)\<rparr>"

subsection \<open>A sample deployment\<close>

text \<open>
  Stand-ins for the libraries, three users and four content items, on which the
  properties below are evaluated. The stand-in for JavaScript's numbers has no answer
  beyond the safe integers; the sample runs stay within them.
\<close>

definition sample_verify :: "string \<Rightarrow> claims option" where
  "sample_verify t =
     (if t = ''alice'' then Some \<lparr>cl_id = 1, cl_username = ''alice'', cl_role = ''publisher''\<rparr>
      else if t = ''bob'' then Some \<lparr>cl_id = 2, cl_username = ''bob'', cl_role = ''user''\<rparr>
      else if t = ''carol'' then Some \<lparr>cl_id = 3, cl_username = ''carol'', cl_role = ''publisher''\<rparr>
      else None)"

definition sample_env :: env where
  "sample_env = \<lparr>bcrypt_hash = (\<lambda>p n. ''$2a$'' @ p),
                 bcrypt_compare = (\<lambda>p h. h = ''$2a$'' @ p),
                 jwt_sign = cl_username,
                 jwt_verify = sample_verify,
                 message_of = (\<lambda>f. ''failure''),
                 js_numbers = (\<lambda>page limit. None)\<rparr>"

definition alice :: user_row where
  "alice = \<lparr>u_id = 1, username = ''alice'', email = ''alice@news.com'', password = ''$2a$wonder'',
            role = ''publisher'', profile = JObj [], u_createdAt = 1, u_updatedAt = 1\<rparr>"

definition bob :: user_row where
  "bob = \<lparr>u_id = 2, username = ''bob'', email = ''bob@news.com'', password = ''$2a$builder'',
          role = ''user'', profile = JObj [], u_createdAt = 2, u_updatedAt = 2\<rparr>"

definition carol :: user_row where
  "carol = \<lparr>u_id = 3, username = ''carol'', email = ''carol@news.com'', password = ''$2a$singer'',
            role = ''publisher'', profile = JObj [], u_createdAt = 3, u_updatedAt = 3\<rparr>"

definition item1 :: content_row where
  "item1 = \<lparr>c_id = 1, title = ''Budget'', content = ''The budget...'', ctype = ''article'',
            category = Some ''politics'', tags = Some [''tax''], status = Some ''draft'',
            featuredImage = None, videoUrl = None, readTime = Some 4, views = Some 0,
            publisherId = 1, createdAt = 10, updatedAt = 10\<rparr>"

definition item2 :: content_row where
  "item2 = \<lparr>c_id = 2, title = ''Derby'', content = ''The derby...'', ctype = ''article'',
            category = Some ''sport'', tags = Some [], status = Some ''published'',
            featuredImage = None, videoUrl = None, readTime = None, views = Some 5,
            publisherId = 3, createdAt = 20, updatedAt = 21\<rparr>"

definition item3 :: content_row where
  "item3 = \<lparr>c_id = 3, title = ''Tides'', content = ''A study...'', ctype = ''journal'',
            category = Some ''science'', tags = Some [''sea''], status = Some ''published'',
            featuredImage = None, videoUrl = None, readTime = Some 12, views = Some 2,
            publisherId = 1, createdAt = 30, updatedAt = 31\<rparr>"

definition item4 :: content_row where
  "item4 = \<lparr>c_id = 4, title = ''Final'', content = ''The final...'', ctype = ''article'',
            category = Some ''sport'', tags = Some [], status = Some ''published'',
            featuredImage = None, videoUrl = None, readTime = None, views = Some 0,
            publisherId = 1, createdAt = 40, updatedAt = 41\<rparr>"

definition sample_store :: store where
  "sample_store = \<lparr>users = [alice, bob, carol], contents = [item1, item2, item3, item4],
                   next_user_id = 4, next_content_id = 5\<rparr>"

definition no_query :: query where
  "no_query = \<lparr>q_type = None, q_category = None, q_page = None, q_limit = None\<rparr>"

text \<open>
  The tables after \<open>carol\<close> has sent \<open>{"views": null}\<close> to the update route for her
  item 2.
\<close>

definition null_views :: update_body where
  "null_views = empty_update\<lparr>p_views := Null\<rparr>"


section \<open>Properties of the handlers\<close>

subsection \<open>Access control\<close>

lemma publisher_only_cases:
  "publisher_only e h handler st =
     (case bearer_token h of
        None \<Rightarrow> ((401, error_body ''Access token required''), st)
      | Some t \<Rightarrow>
          (case jwt_verify e t of
             None \<Rightarrow> ((403, error_body ''Invalid token''), st)
           | Some user \<Rightarrow>
               (if cl_role user = ''publisher'' then handler user
                else ((403, error_body ''Publisher access required''), st))))"
  by (simp add: publisher_only_def authenticateToken_def requirePublisher_def
      split: option.splits)

text \<open>
  Claim C3, with the error texts as the source has them. For every request to a
  publisher-only route (\<open>GET\<close>/\<open>POST /api/publisher/contents\<close>,
  \<open>PUT /api/publisher/contents/:id\<close>, \<open>PUT .../publish\<close>): if the authorization header
  carries no token the response is 401 with error \<open>Access token required\<close>; if a token is
  present but fails verification the response is 403 with error \<open>Invalid token\<close>; if the
  token verifies but its role claim is not \<open>publisher\<close> the response is 403 with error
  \<open>Publisher access required\<close>; in these three cases the tables are untouched, and only
  when all three checks pass does the handler run, on the verified claims.
\<close>

theorem publisher_routes_guarded:
  assumes "is_publisher_route req"
  shows "(bearer_token h = None \<longrightarrow>
            serve e now h req st = ((401, error_body ''Access token required''), st)) \<and>
         (\<forall>t. bearer_token h = Some t \<longrightarrow> jwt_verify e t = None \<longrightarrow>
            serve e now h req st = ((403, error_body ''Invalid token''), st)) \<and>
         (\<forall>t user. bearer_token h = Some t \<longrightarrow> jwt_verify e t = Some user \<longrightarrow>
            cl_role user \<noteq> ''publisher'' \<longrightarrow>
            serve e now h req st = ((403, error_body ''Publisher access required''), st)) \<and>
         (\<forall>t user. bearer_token h = Some t \<longrightarrow> jwt_verify e t = Some user \<longrightarrow>
            cl_role user = ''publisher'' \<longrightarrow>
            (req = PublisherContents \<longrightarrow> serve e now h req st = publisher_contents user st) \<and>
            (\<forall>b. req = CreateContent b \<longrightarrow>
               serve e now h req st = create_content e now user b st) \<and>
            (\<forall>i b. req = UpdateContent i b \<longrightarrow>
               serve e now h req st = update_content e now user i b st) \<and>
            (\<forall>i. req = PublishContent i \<longrightarrow>
               serve e now h req st = publish_content e now user i st))"
  using assms by (cases req) (simp_all add: publisher_only_cases)

subsection \<open>Ownership and visibility of content\<close>

lemma publisher_only_run:
  "authenticateToken e h = Inr user \<Longrightarrow> cl_role user = ''publisher'' \<Longrightarrow>
   publisher_only e h handler st = handler user"
  by (simp add: publisher_only_def requirePublisher_def)

lemma wf_same_id:
  assumes "wf_store st" "c \<in> set (contents st)" "r \<in> set (contents st)" "c_id r = c_id c"
  shows "r = c"
proof -
  from assms(1) have "inj_on c_id (set (contents st))"
    by (simp add: wf_store_def distinct_map)
  with assms(2-4) show ?thesis by (auto dest: inj_onD)
qed

lemma wf_int4_id: "wf_store st \<Longrightarrow> c \<in> set (contents st) \<Longrightarrow> int4 (c_id c)"
  by (simp add: wf_store_def list_all_iff)

lemma owned_refused:
  "(Content_findOne_owned i pid st = Inl f) = (\<not> int4 i \<and> f = OutOfRange ''id'')"
  by (auto simp: Content_findOne_owned_def)

lemma owned_found:
  "Content_findOne_owned i pid st = Inr (Some c) \<Longrightarrow>
   int4 i \<and> c \<in> set (contents st) \<and> c_id c = i \<and> publisherId c = pid"
  by (auto simp: Content_findOne_owned_def find_Some_iff split: if_splits)

lemma owned_missing:
  "(Content_findOne_owned i pid st = Inr None) =
   (int4 i \<and> (\<forall>c \<in> set (contents st). c_id c = i \<longrightarrow> publisherId c \<noteq> pid))"
  by (auto simp: Content_findOne_owned_def find_None_iff)

lemma Content_update_rows:
  assumes "wf_store st" "c \<in> set (contents st)" "Content_update now c b st = Inr (c', st')"
  shows "users st' = users st \<and> next_content_id st' = next_content_id st \<and>
         next_user_id st' = next_user_id st \<and>
         length (contents st') = length (contents st) \<and>
         (\<forall>k < length (contents st).
            contents st' ! k = (if contents st ! k = c then c' else contents st ! k))"
proof (cases "apply_body b c = c")
  case True
  with assms(3) show ?thesis
    by (auto simp: Content_update_def Let_def split: if_splits option.splits)
next
  case False
  with assms(3) have st': "st' = st\<lparr>contents := map (\<lambda>r. if c_id r = c_id c then c' else r) (contents st)\<rparr>"
    by (auto simp: Content_update_def Let_def split: if_splits option.splits)
  have "\<forall>k < length (contents st).
          (c_id (contents st ! k) = c_id c) = (contents st ! k = c)"
    using wf_same_id [OF assms(1,2)] by auto
  with st' show ?thesis by simp
qed

lemma Content_update_id:
  "Content_update now c b st = Inr (c', st') \<Longrightarrow> c_id c' = c_id c"
  by (auto simp: Content_update_def Let_def apply_body_def split: if_splits option.splits)

text \<open>
  Claim C1, for the ids of the INTEGER range. For every request to
  \<open>PUT /api/publisher/contents/:id\<close> or \<open>PUT /api/publisher/contents/:id/publish\<close> made
  with valid publisher claims: a content row differs after the request only if it is the
  row of that id and its \<open>publisherId\<close> is the caller's token id (no row is added or
  removed, no user row changes); if the id is within the INTEGER range and no row of that
  id belongs to the caller (the id does not exist, or is another publisher's) the response
  is 404 with the error \<open>Content not found\<close> and the tables are unchanged; an id outside
  the INTEGER range is answered 500, not 404, and the tables are unchanged; a 200 is
  answered only for a row the caller owns, and every other answer leaves the tables as
  they were.
\<close>

theorem only_owner_mutates:
  assumes wf: "wf_store st"
    and auth: "authenticateToken e h = Inr user"
    and pub: "cl_role user = ''publisher''"
    and req: "req = UpdateContent i b \<or> req = PublishContent i"
    and run: "serve e now h req st = (resp, st')"
  shows "users st' = users st \<and>
         length (contents st') = length (contents st) \<and>
         (\<forall>k < length (contents st).
            contents st' ! k \<noteq> contents st ! k \<longrightarrow>
            c_id (contents st ! k) = i \<and> publisherId (contents st ! k) = cl_id user) \<and>
         (int4 i \<longrightarrow>
            (\<forall>c \<in> set (contents st). c_id c = i \<longrightarrow> publisherId c \<noteq> cl_id user) \<longrightarrow>
            resp = (404, JObj [(''error'', JStr ''Content not found'')]) \<and> st' = st) \<and>
         (\<not> int4 i \<longrightarrow>
            resp = (500, JObj [(''error'', JStr (message_of e (OutOfRange ''id'')))]) \<and> st' = st) \<and>
         (fst resp = 200 \<longrightarrow>
            (\<exists>c \<in> set (contents st). c_id c = i \<and> publisherId c = cl_id user)) \<and>
         (fst resp \<noteq> 200 \<longrightarrow> st' = st)"
proof -
  define bd where "bd = (if req = PublishContent i then empty_update\<lparr>p_status := Val ''published''\<rparr> else b)"
  show ?thesis
  proof (cases "Content_findOne_owned i (cl_id user) st")
    case (Inl f)
    then have "\<not> int4 i" "f = OutOfRange ''id''" by (simp_all add: owned_refused)
    with Inl req run auth pub show ?thesis
      by (auto simp: publisher_only_run update_content_def publish_content_def
          server_error_def error_body_def)
  next
    case (Inr found)
    show ?thesis
    proof (cases found)
      case None
      with Inr have miss: "int4 i"
          "\<forall>c \<in> set (contents st). c_id c = i \<longrightarrow> publisherId c \<noteq> cl_id user"
        by (simp_all add: owned_missing)
      from None Inr req run auth pub
      have "resp = (404, JObj [(''error'', JStr ''Content not found'')]) \<and> st' = st"
        by (auto simp: publisher_only_run update_content_def publish_content_def error_body_def)
      with miss show ?thesis by auto
    next
      case (Some c)
      with Inr have c: "int4 i" "c \<in> set (contents st)" "c_id c = i" "publisherId c = cl_id user"
        by (auto dest: owned_found)
      show ?thesis
      proof (cases "Content_update now c bd st")
        case (Inl f)
        with Some Inr req run auth pub have "resp = server_error e f \<and> st' = st"
          by (auto simp: publisher_only_run update_content_def publish_content_def bd_def)
        with c show ?thesis by (auto simp: server_error_def)
      next
        case (Inr p)
        obtain c' st2 where p: "p = (c', st2)" by (cases p)
        with Inr Some \<open>Content_findOne_owned i (cl_id user) st = Inr found\<close> req run auth pub
        have "st' = st2 \<and> fst resp = 200"
          by (auto simp: publisher_only_run update_content_def publish_content_def bd_def)
        with Inr p have upd: "Content_update now c bd st = Inr (c', st')" and ok: "fst resp = 200"
          by simp_all
        from Content_update_rows [OF wf c(2) upd] c ok show ?thesis by auto
      qed
    qed
  qed
qed



lemma published_missing:
  "(Content_findOne_published i st = Inr None) =
   (int4 i \<and> (\<forall>c \<in> set (contents st). c_id c = i \<longrightarrow> status c \<noteq> Some ''published''))"
  by (auto simp: Content_findOne_published_def find_None_iff)

text \<open>
  Claim C2, for the ids of the INTEGER range. For every id within the INTEGER range,
  \<open>GET /api/contents/:id\<close> answers 404 with the error \<open>Content not found\<close> (and leaves the
  tables as they are) whenever no content row of that id has status \<open>published\<close>: the row
  is absent, or it is a draft or archived, or its status is NULL. The authorization header
  plays no part: the answer is the same for the owning publisher and for an anonymous
  requester. For an id outside the INTEGER range (of which no row exists) the database
  refuses the lookup and the answer is 500 with the message of that failure.
\<close>

theorem unpublished_not_found:
  assumes "\<forall>c \<in> set (contents st). c_id c = i \<longrightarrow> status c \<noteq> Some ''published''"
  shows "(int4 i \<longrightarrow>
            serve e now h (GetContent i) st =
              ((404, JObj [(''error'', JStr ''Content not found'')]), st)) \<and>
         (\<not> int4 i \<longrightarrow>
            serve e now h (GetContent i) st =
              ((500, JObj [(''error'', JStr (message_of e (OutOfRange ''id'')))]), st))"
proof (cases "int4 i")
  case True
  with assms have "Content_findOne_published i st = Inr None"
    by (simp add: published_missing)
  with True show ?thesis by (simp add: get_content_def error_body_def)
next
  case False
  then have "Content_findOne_published i st = Inl (OutOfRange ''id'')"
    by (simp add: Content_findOne_published_def)
  with False show ?thesis by (simp add: get_content_def server_error_def error_body_def)
qed

subsection \<open>The view counter\<close>

lemma find_map_option:
  "find P (map f xs) = map_option f (find (P \<circ> f) xs)"
  by (induction xs) auto


lemma increment_done:
  "Content_increment_views now c st = Inr (c', st') \<Longrightarrow>
   c' = bump_views now c \<and>
   st' = st\<lparr>contents := map (\<lambda>r. if c_id r = c_id c then bump_views now r else r) (contents st)\<rparr>"
  by (auto simp: Content_increment_views_def split: if_splits)



lemma wf_int4_views:
  "wf_store st \<Longrightarrow> c \<in> set (contents st) \<Longrightarrow> views c = Some v \<Longrightarrow> int4 v"
  by (auto simp: wf_store_def list_all_iff split: option.splits)



subsection \<open>What the database checks\<close>

lemma first_failure_None: "(first_failure fs = None) = (\<forall>f \<in> set fs. f = None)"
  by (induction fs rule: first_failure.induct) auto

lemma refuse_if_None: "(refuse_if b f = None) = (\<not> b)"
  by (simp add: refuse_if_def)

lemma check_text_None: "(check_text col s = None) = pg_text s"
  by (simp add: check_text_def refuse_if_def)

lemma check_varchar_None: "(check_varchar col s = None) = varchar255 s"
  by (auto simp: check_varchar_def first_failure_None check_text_None refuse_if_None
      varchar255_def)

lemma check_int4_None: "(check_int4 col n = None) = int4 n"
  by (simp add: check_int4_def refuse_if_def)

lemma check_enum_None: "(check_enum col vs s = None) = (s \<in> set vs)"
  by (simp add: check_enum_def refuse_if_def)

lemma on_some_None: "(on_some v chk = None) = (\<forall>x. v = Some x \<longrightarrow> chk x = None)"
  by (simp add: on_some_def split: option.splits)

lemma on_val_None: "(on_val v chk = None) = (\<forall>x. v = Val x \<longrightarrow> chk x = None)"
  by (simp add: on_val_def split: json_field.splits)

lemmas check_simps =
  first_failure_None refuse_if_None check_text_None check_varchar_None check_int4_None
  check_enum_None on_some_None on_val_None

lemma User_create_done:
  assumes "User_create now un em pw rl st = Inr (u, st')"
  shows "\<exists>n m. un = Some n \<and> em = Some m \<and>
           u = \<lparr>u_id = next_user_id st, username = n, email = m, password = pw, role = rl,
                profile = JObj [], u_createdAt = now, u_updatedAt = now\<rparr> \<and>
           st' = st\<lparr>users := users st @ [u], next_user_id := next_user_id st + 1\<rparr> \<and>
           varchar255 n \<and> varchar255 m \<and> varchar255 pw \<and> rl \<in> set role_values \<and>
           int4 (next_user_id st) \<and> m \<notin> set (map email (users st))"
  using assms
  by (auto simp: User_create_def Let_def check_simps split: option.splits)


lemma Content_create_done:
  assumes "Content_create now ti co ty ca tg fi vu rt pid st = Inr (r, st')"
  shows "\<exists>t c y. ti = Some t \<and> co = Some c \<and> ty = Some y \<and>
           r = \<lparr>c_id = next_content_id st, title = t, content = c, ctype = y, category = ca,
                tags = Some tg, status = Some ''draft'', featuredImage = fi, videoUrl = vu,
                readTime = rt, views = Some 0, publisherId = pid,
                createdAt = now, updatedAt = now\<rparr> \<and>
           st' = st\<lparr>contents := contents st @ [r], next_content_id := next_content_id st + 1\<rparr> \<and>
           int4 (next_content_id st) \<and> pid \<in> set (map u_id (users st))"
  using assms
  by (auto simp: Content_create_def Let_def check_simps split: option.splits)

lemma Content_update_done:
  assumes "Content_update now c b st = Inr (c', st')"
  shows "(apply_body b c = c \<and> c' = c \<and> st' = st) \<or>
         (apply_body b c \<noteq> c \<and> c' = (apply_body b c)\<lparr>updatedAt := now\<rparr> \<and>
          st' = st\<lparr>contents := map (\<lambda>r. if c_id r = c_id c then c' else r) (contents st)\<rparr> \<and>
          (\<forall>v. p_views b = Val v \<longrightarrow> int4 v))"
  using assms
  by (auto simp: Content_update_def Let_def check_simps split: option.splits if_splits)

subsection \<open>Publishing, and what every request keeps of the tables\<close>

lemma apply_publish:
  "apply_body (empty_update\<lparr>p_status := Val s\<rparr>) c = c\<lparr>status := Some s\<rparr>"
  by (simp add: apply_body_def empty_update_def set_required_def set_nullable_def)

lemma publish_update:
  "Content_update now c (empty_update\<lparr>p_status := Val ''published''\<rparr>) st =
     (if c\<lparr>status := Some ''published''\<rparr> = c then Inr (c, st)
      else Inr (c\<lparr>status := Some ''published'', updatedAt := now\<rparr>,
                st\<lparr>contents := map (\<lambda>r. if c_id r = c_id c
                                     then c\<lparr>status := Some ''published'', updatedAt := now\<rparr>
                                     else r) (contents st)\<rparr>))"
  unfolding Content_update_def Let_def apply_publish
  by (simp add: empty_update_def on_val_def refuse_if_def check_enum_def status_values_def)

lemma publish_stable:
  assumes "\<forall>r \<in> set (contents st). c_id r = i \<longrightarrow> status r = Some ''published''"
  shows "snd (publish_content e now user i st) = st"
proof (cases "Content_findOne_owned i (cl_id user) st")
  case (Inl f)
  then show ?thesis by (simp add: publish_content_def)
next
  case (Inr found)
  show ?thesis
  proof (cases found)
    case None
    with Inr show ?thesis by (simp add: publish_content_def)
  next
    case (Some r)
    with Inr assms have "status r = Some ''published''" by (auto dest: owned_found)
    then have "r\<lparr>status := Some ''published''\<rparr> = r" by simp
    then have "Content_update now r (empty_update\<lparr>p_status := Val ''published''\<rparr>) st = Inr (r, st)"
      by (simp add: publish_update)
    with Some Inr show ?thesis by (simp add: publish_content_def)
  qed
qed

lemma publish_owned:
  assumes wf: "wf_store st"
    and own: "c \<in> set (contents st)" "c_id c = i" "publisherId c = cl_id user"
    and run: "publish_content e now user i st = (resp, st')"
  shows "fst resp = 200 \<and>
         (\<forall>r \<in> set (contents st'). c_id r = i \<longrightarrow>
            status r = Some ''published'' \<and> publisherId r = cl_id user) \<and>
         (\<exists>r \<in> set (contents st'). c_id r = i) \<and> users st' = users st"
proof -
  let ?b = "empty_update\<lparr>p_status := Val ''published''\<rparr>"
  from wf own have i4: "int4 i" by (auto dest: wf_int4_id)
  with own have "Content_findOne_owned i (cl_id user) st \<noteq> Inr None"
    by (auto simp: owned_missing)
  moreover from i4 have "\<And>f. Content_findOne_owned i (cl_id user) st \<noteq> Inl f"
    by (simp add: owned_refused)
  ultimately obtain c0 where f: "Content_findOne_owned i (cl_id user) st = Inr (Some c0)"
    by (cases "Content_findOne_owned i (cl_id user) st") auto
  with wf own have c0: "c0 = c" by (auto dest!: owned_found intro: wf_same_id)
  show ?thesis
  proof (cases "c\<lparr>status := Some ''published''\<rparr> = c")
    case True
    then have "Content_update now c ?b st = Inr (c, st)"
      by (simp add: publish_update)
    with f c0 run have r: "fst resp = 200" "st' = st" by (auto simp: publish_content_def)
    from True have "status (c\<lparr>status := Some ''published''\<rparr>) = status c" by simp
    then have "status c = Some ''published''" by simp
    with wf own r show ?thesis by (auto dest: wf_same_id)
  next
    case False
    let ?c = "c\<lparr>status := Some ''published'', updatedAt := now\<rparr>"
    from False have "Content_update now c ?b st =
        Inr (?c, st\<lparr>contents := map (\<lambda>r. if c_id r = c_id c then ?c else r) (contents st)\<rparr>)"
      by (simp add: publish_update)
    with f c0 run have r: "fst resp = 200"
      "st' = st\<lparr>contents := map (\<lambda>r. if c_id r = c_id c then ?c else r) (contents st)\<rparr>"
      by (auto simp: publish_content_def)
    let ?f = "\<lambda>r. if c_id r = c_id c then ?c else r"
    from own(1) have "?f c \<in> ?f ` set (contents st)" by (rule imageI)
    then have "?c \<in> set (contents st')" unfolding r(2) by simp
    moreover have "c_id ?c = i" using own(2) by simp
    ultimately have ex: "\<exists>r \<in> set (contents st'). c_id r = i" by blast
    have "\<forall>r \<in> ?f ` set (contents st). c_id r = i \<longrightarrow>
            status r = Some ''published'' \<and> publisherId r = cl_id user"
      using own by auto
    then have "\<forall>r \<in> set (contents st'). c_id r = i \<longrightarrow>
            status r = Some ''published'' \<and> publisherId r = cl_id user"
      unfolding r(2) by simp
    with ex r show ?thesis by simp
  qed
qed

text \<open>
  Claim C10. \<open>PUT /api/publisher/contents/:id/publish\<close> by the publisher who owns the item
  answers 200 whatever the item's status (draft, archived, already published), and leaves
  the item stored with status \<open>published\<close>. Publishing again, at any later time, leaves
  the tables exactly as the first call left them.
\<close>

theorem publish_idempotent:
  assumes wf: "wf_store st"
    and auth: "authenticateToken e h = Inr user"
    and pub: "cl_role user = ''publisher''"
    and own: "c \<in> set (contents st)" "c_id c = i" "publisherId c = cl_id user"
    and run: "serve e now h (PublishContent i) st = (resp, st')"
  shows "fst resp = 200 \<and>
         (\<exists>r \<in> set (contents st'). c_id r = i) \<and>
         (\<forall>r \<in> set (contents st'). c_id r = i \<longrightarrow> status r = Some ''published'') \<and>
         (\<forall>now'. snd (serve e now' h (PublishContent i) st') = st')"
proof -
  from run auth pub have p: "publish_content e now user i st = (resp, st')"
    by (simp add: publisher_only_run)
  from publish_owned [OF wf own p]
  have r: "fst resp = 200" "\<exists>r \<in> set (contents st'). c_id r = i"
    "\<forall>r \<in> set (contents st'). c_id r = i \<longrightarrow> status r = Some ''published''"
    by auto
  from r(3) have "\<forall>now'. snd (publish_content e now' user i st') = st'"
    by (simp add: publish_stable)
  with auth pub have "\<forall>now'. snd (serve e now' h (PublishContent i) st') = st'"
    by (simp add: publisher_only_run)
  with r show ?thesis by simp
qed

lemma wf_store_rows:
  "wf_store st =
     (distinct (map u_id (users st)) \<and> distinct (map email (users st)) \<and>
      distinct (map c_id (contents st)) \<and>
      (\<forall>u \<in> set (users st). u_id u < next_user_id st \<and> int4 (u_id u)) \<and>
      (\<forall>c \<in> set (contents st). c_id c < next_content_id st \<and> int4 (c_id c) \<and>
          (\<forall>v. views c = Some v \<longrightarrow> int4 v)))"
  by (auto simp: wf_store_def list_all_iff split: option.splits)

lemma fresh_user_id:
  "wf_store st \<Longrightarrow> next_user_id st \<notin> set (map u_id (users st))"
  by (auto simp: wf_store_rows)

lemma fresh_content_id:
  "wf_store st \<Longrightarrow> next_content_id st \<notin> set (map c_id (contents st))"
  by (auto simp: wf_store_rows)

lemma User_create_wf:
  assumes "wf_store st" "User_create now un em pw rl st = Inr (u, st')"
  shows "wf_store st'"
proof -
  from User_create_done [OF assms(2)] obtain n m where
    u: "u = \<lparr>u_id = next_user_id st, username = n, email = m, password = pw, role = rl,
             profile = JObj [], u_createdAt = now, u_updatedAt = now\<rparr>"
    and m: "m \<notin> set (map email (users st))"
    and i4: "int4 (next_user_id st)"
    and st': "st' = st\<lparr>users := users st @ [u], next_user_id := next_user_id st + 1\<rparr>"
    by blast
  from fresh_user_id [OF assms(1)] have "u_id u \<notin> set (map u_id (users st))" by (simp add: u)
  moreover from m have "email u \<notin> set (map email (users st))" by (simp add: u)
  moreover have "u_id u < next_user_id st + 1" "int4 (u_id u)" using i4 by (simp_all add: u)
  ultimately show ?thesis using assms(1) unfolding st'
    by (auto simp: wf_store_rows)
qed

lemma Content_create_wf:
  assumes "wf_store st" "Content_create now ti co ty ca tg fi vu rt pid st = Inr (r, st')"
  shows "wf_store st'"
proof -
  from Content_create_done [OF assms(2)] have id: "c_id r = next_content_id st"
    and v: "views r = Some 0" and i4: "int4 (next_content_id st)"
    and st': "st' = st\<lparr>contents := contents st @ [r], next_content_id := next_content_id st + 1\<rparr>"
    by auto
  from fresh_content_id [OF assms(1)] id have "c_id r \<notin> set (map c_id (contents st))" by simp
  moreover have "int4 0" by (simp add: int4_def)
  ultimately show ?thesis using id v i4 assms(1) unfolding st'
    by (auto simp: wf_store_rows)
qed

lemma map_c_id_replace:
  "(\<And>r. c_id (f r) = c_id r) \<Longrightarrow> map c_id (map (\<lambda>r. if c_id r = j then f r else r) xs) = map c_id xs"
  by (induction xs) auto

lemma replace_rows_wf:
  assumes wf: "wf_store st"
    and id: "\<And>r. c_id (f r) = c_id r"
    and vw: "\<And>r v. r \<in> set (contents st) \<Longrightarrow> c_id r = j \<Longrightarrow> views (f r) = Some v \<Longrightarrow> int4 v"
  shows "wf_store (st\<lparr>contents := map (\<lambda>r. if c_id r = j then f r else r) (contents st)\<rparr>)"
proof -
  let ?g = "\<lambda>r. if c_id r = j then f r else r"
  have ids: "map c_id (map ?g (contents st)) = map c_id (contents st)"
    using id by (rule map_c_id_replace)
  have rows: "\<forall>c \<in> set (map ?g (contents st)).
      c_id c < next_content_id st \<and> int4 (c_id c) \<and> (\<forall>v. views c = Some v \<longrightarrow> int4 v)"
  proof
    fix c assume "c \<in> set (map ?g (contents st))"
    then obtain r where r: "r \<in> set (contents st)" "c = ?g r" by auto
    from wf r(1) have k: "c_id r < next_content_id st" "int4 (c_id r)"
        "\<forall>v. views r = Some v \<longrightarrow> int4 v"
      by (auto simp: wf_store_rows)
    show "c_id c < next_content_id st \<and> int4 (c_id c) \<and> (\<forall>v. views c = Some v \<longrightarrow> int4 v)"
    proof (cases "c_id r = j")
      case True
      with r k id [of r] vw [OF r(1)] show ?thesis by auto
    next
      case False
      with r k show ?thesis by simp
    qed
  qed
  from wf have "distinct (map c_id (contents st))" by (simp add: wf_store_rows)
  then have "distinct (map c_id (map ?g (contents st)))" by (simp only: ids)
  with wf rows show ?thesis
    by (simp add: wf_store_rows del: map_map set_map)
qed

lemma Content_update_wf:
  assumes "wf_store st" "c \<in> set (contents st)" "Content_update now c b st = Inr (c', st')"
  shows "wf_store st'"
proof -
  from Content_update_done [OF assms(3)] show ?thesis
  proof
    assume "apply_body b c = c \<and> c' = c \<and> st' = st"
    with assms(1) show ?thesis by simp
  next
    assume a: "apply_body b c \<noteq> c \<and> c' = (apply_body b c)\<lparr>updatedAt := now\<rparr> \<and>
          st' = st\<lparr>contents := map (\<lambda>r. if c_id r = c_id c then c' else r) (contents st)\<rparr> \<and>
          (\<forall>v. p_views b = Val v \<longrightarrow> int4 v)"
    then have id: "c_id c' = c_id c" by (simp add: apply_body_def)
    have vw: "\<And>v. views c' = Some v \<Longrightarrow> int4 v"
    proof -
      fix v assume "views c' = Some v"
      with a have "set_nullable (p_views b) (views c) = Some v" by (simp add: apply_body_def)
      with a wf_int4_views [OF assms(1,2)] show "int4 v"
        by (cases "p_views b") (auto simp: set_nullable_def)
    qed
    have "wf_store (st\<lparr>contents := map (\<lambda>r. if c_id r = c_id c then (\<lambda>r. c'\<lparr>c_id := c_id r\<rparr>) r else r)
        (contents st)\<rparr>)"
      using assms(1) by (rule replace_rows_wf) (use vw in auto)
    moreover have "map (\<lambda>r. if c_id r = c_id c then (\<lambda>r. c'\<lparr>c_id := c_id r\<rparr>) r else r) (contents st) =
        map (\<lambda>r. if c_id r = c_id c then c' else r) (contents st)"
      using id by (intro map_cong) auto
    ultimately show ?thesis using a by simp
  qed
qed

lemma Content_increment_views_wf:
  assumes "wf_store st" "Content_increment_views now c st = Inr (c', st')"
  shows "wf_store st'"
proof -
  have no: "\<not> list_ex (\<lambda>r. c_id r = c_id c \<and>
      (case views r of None \<Rightarrow> False | Some v \<Rightarrow> \<not> int4 (v + 1))) (contents st)"
    using assms(2) by (auto simp: Content_increment_views_def split: if_splits)
  have "wf_store (st\<lparr>contents := map (\<lambda>r. if c_id r = c_id c then bump_views now r else r)
      (contents st)\<rparr>)"
    using assms(1)
  proof (rule replace_rows_wf)
    fix r show "c_id (bump_views now r) = c_id r" by (simp add: bump_views_def)
  next
    fix r v assume "r \<in> set (contents st)" "c_id r = c_id c" "views (bump_views now r) = Some v"
    with no show "int4 v" by (auto simp: list_ex_iff bump_views_def split: option.splits)
  qed
  with increment_done [OF assms(2)] show ?thesis by simp
qed

lemma get_content_wf:
  assumes "wf_store st"
  shows "wf_store (snd (get_content e now i st))"
  using assms
  by (auto simp: get_content_def split: sum.splits option.splits
      dest: Content_increment_views_wf)

lemma owned_update_wf:
  assumes "wf_store st"
  shows "wf_store (snd (case Content_findOne_owned i pid st of
                          Inl f \<Rightarrow> (r1 f, st)
                        | Inr None \<Rightarrow> (r2, st)
                        | Inr (Some c) \<Rightarrow>
                            (case Content_update now c b st of
                               Inl f \<Rightarrow> (r3 f, st)
                             | Inr (c', st') \<Rightarrow> (r4 c', st'))))"
proof (cases "Content_findOne_owned i pid st")
  case (Inl f)
  with assms show ?thesis by simp
next
  case (Inr found)
  show ?thesis
  proof (cases found)
    case None
    with Inr assms show ?thesis by simp
  next
    case (Some c)
    with Inr have "c \<in> set (contents st)" by (auto dest: owned_found)
    with Some Inr assms show ?thesis
      by (auto split: sum.splits dest: Content_update_wf)
  qed
qed

lemma publisher_only_wf:
  "wf_store st \<Longrightarrow> (\<And>user. wf_store (snd (handler user))) \<Longrightarrow>
   wf_store (snd (publisher_only e h handler st))"
  by (simp add: publisher_only_def split: sum.splits)

lemma serve_wf:
  assumes "wf_store st"
  shows "wf_store (snd (serve e now h req st))"
proof (cases req)
  case Home
  with assms show ?thesis by simp
next
  case (Register body)
  with assms show ?thesis
    by (auto simp: register_def Let_def split: option.splits sum.splits dest: User_create_wf)
next
  case (Login body)
  with assms show ?thesis by (auto simp: login_def split: option.splits)
next
  case (GetContents q)
  with assms show ?thesis
    by (auto simp: get_contents_def Let_def split: sum.splits option.splits)
next
  case (GetContent i)
  with assms show ?thesis by (simp add: get_content_wf)
next
  case PublisherContents
  with assms show ?thesis by (simp add: publisher_only_wf publisher_contents_def)
next
  case (CreateContent body)
  with assms show ?thesis
    by (auto intro!: publisher_only_wf simp: create_content_def split: sum.splits
        dest: Content_create_wf)
next
  case (UpdateContent i body)
  with assms show ?thesis
    by (auto intro!: publisher_only_wf owned_update_wf simp: update_content_def)
next
  case (PublishContent i)
  with assms show ?thesis
    by (auto intro!: publisher_only_wf owned_update_wf simp: publish_content_def)
next
  case Profile
  with assms show ?thesis
    by (simp add: authenticated_def get_profile_def split: sum.splits)
qed

lemma syncDatabase_wf: "wf_store st \<Longrightarrow> wf_store (syncDatabase e now st)"
  by (auto simp: syncDatabase_def Let_def split: option.splits sum.splits dest: User_create_wf)

lemma empty_store_wf: "wf_store empty_store"
  by (simp add: wf_store_def empty_store_def)

subsection \<open>Successive fetches\<close>



subsection \<open>Creating content, registering, logging in\<close>







lemma email_lookup_Some:
  "User_findOne_email em st = Some u \<Longrightarrow> u \<in> set (users st) \<and> email u = where_string em"
  by (auto simp: User_findOne_email_def find_Some_iff)













subsection \<open>The public list\<close>








subsection \<open>Passwords\<close>

lemma mentions_JArr: "mentions k (JArr js) = (\<exists>j \<in> set js. mentions k j)"
  by (auto simp: list_ex_iff)

lemma mentions_JObj:
  "mentions k (JObj kvs) = (\<exists>kv \<in> set kvs. fst kv = k \<or> mentions k (snd kv))"
  by (auto simp: list_ex_iff)

declare mentions.simps(4,5) [simp del]

declare mentions_JArr [simp] mentions_JObj [simp]

lemma content_attrs_clean: "\<not> mentions ''password'' (JObj (content_attrs c))"
  by (auto simp: content_attrs_def opt_str_def opt_num_def opt_strs_def split: option.splits)

lemma public_user_clean:
  "\<not> mentions ''password'' (profile u) \<Longrightarrow>
   \<not> mentions ''password'' (JObj (only_attrs [''id'', ''username'', ''profile''] (user_attrs u)))"
  by (simp add: mentions_JObj only_attrs_def user_attrs_def)

lemma profile_body_clean:
  "\<not> mentions ''password'' (profile u) \<Longrightarrow>
   \<not> mentions ''password'' (JObj (exclude_attrs [''password''] (user_attrs u)))"
  by (simp add: mentions_JObj exclude_attrs_def user_attrs_def)

lemma profile_body_fields:
  "exclude_attrs [''password''] (user_attrs u) =
     [(''id'', JNum (u_id u)), (''username'', JStr (username u)), (''email'', JStr (email u)),
      (''role'', JStr (role u)), (''profile'', profile u),
      (''createdAt'', JNum (int (u_createdAt u))), (''updatedAt'', JNum (int (u_updatedAt u)))]"
  by (simp add: exclude_attrs_def user_attrs_def)

lemma findByPk_mem: "User_findByPk i st = Some u \<Longrightarrow> u \<in> set (users st)"
  by (auto simp: User_findByPk_def find_Some_iff)

lemma content_with_user_clean:
  assumes "clean_profiles st"
  shows "\<not> mentions ''password'' (content_with_user st c)"
proof (cases "User_findByPk (publisherId c) st")
  case None
  with content_attrs_clean [of c] show ?thesis
    by (simp add: content_with_user_def mentions_JObj)
next
  case (Some u)
  with assms have "\<not> mentions ''password'' (profile u)"
    by (auto simp: clean_profiles_def list_all_iff dest: findByPk_mem)
  from public_user_clean [OF this] content_attrs_clean [of c] Some show ?thesis
    by (simp add: content_with_user_def mentions_JObj)
qed

lemma auth_body_clean: "\<not> mentions ''password'' (auth_body msg token u)"
  by (simp add: auth_body_def)

lemma error_body_clean: "\<not> mentions ''password'' (error_body msg)"
  by (simp add: error_body_def)

lemma home_clean: "\<not> mentions ''password'' (snd home)"
  by (simp add: home_def)

lemma increment_users:
  "Content_increment_views now c st = Inr (c', st') \<Longrightarrow> users st' = users st"
  by (auto dest: increment_done)

lemma publisher_only_clean:
  assumes "\<And>user. \<not> mentions ''password'' (snd (fst (handler user)))"
  shows "\<not> mentions ''password'' (snd (fst (publisher_only e h handler st)))"
  using assms
  by (auto simp: publisher_only_def authenticateToken_def requirePublisher_def error_body_clean
      split: option.splits sum.splits)

lemma register_clean: "\<not> mentions ''password'' (snd (fst (register e now body st)))"
  by (auto simp: register_def Let_def server_error_def error_body_clean auth_body_clean
      split: option.splits sum.splits)

lemma login_clean: "\<not> mentions ''password'' (snd (fst (login e body st)))"
  by (auto simp: login_def server_error_def error_body_clean auth_body_clean
      split: option.splits)

lemma get_contents_clean:
  "clean_profiles st \<Longrightarrow> \<not> mentions ''password'' (snd (fst (get_contents e q st)))"
  by (auto simp: get_contents_def Let_def server_error_def error_body_clean mentions_JArr
      content_with_user_clean split: sum.splits option.splits)

lemma get_content_clean:
  assumes "clean_profiles st"
  shows "\<not> mentions ''password'' (snd (fst (get_content e now i st)))"
proof -
  have "\<And>c c' st'. Content_increment_views now c st = Inr (c', st') \<Longrightarrow>
          \<not> mentions ''password'' (content_with_user st' c')"
  proof -
    fix c c' st' assume "Content_increment_views now c st = Inr (c', st')"
    then have "users st' = users st" by (rule increment_users)
    with assms have "clean_profiles st'" by (simp add: clean_profiles_def)
    then show "\<not> mentions ''password'' (content_with_user st' c')"
      by (rule content_with_user_clean)
  qed
  then show ?thesis
    by (auto simp: get_content_def server_error_def error_body_clean
        split: sum.splits option.splits)
qed

lemma publisher_handlers_clean:
  "\<not> mentions ''password'' (snd (fst (publisher_contents user st)))"
  "\<not> mentions ''password'' (snd (fst (create_content e now user body st)))"
  "\<not> mentions ''password'' (snd (fst (update_content e now user i ubody st)))"
  "\<not> mentions ''password'' (snd (fst (publish_content e now user i st)))"
  by (auto simp: publisher_contents_def create_content_def update_content_def
      publish_content_def server_error_def error_body_clean mentions_JArr
      content_attrs_clean [simplified]
      split: sum.splits option.splits)

lemma get_profile_clean:
  assumes "clean_profiles st"
  shows "\<not> mentions ''password'' (snd (fst (get_profile user st)))"
proof (cases "User_findByPk (cl_id user) st")
  case None
  then show ?thesis by (simp add: get_profile_def)
next
  case (Some u)
  with assms have "\<not> mentions ''password'' (profile u)"
    by (auto simp: clean_profiles_def list_all_iff dest: findByPk_mem)
  from profile_body_clean [OF this] Some show ?thesis
    by (simp add: get_profile_def)
qed

lemma serve_clean:
  assumes "clean_profiles st"
  shows "\<not> mentions ''password'' (snd (fst (serve e now h req st)))"
proof (cases req)
  case Profile
  with assms show ?thesis
    by (auto simp: authenticated_def authenticateToken_def error_body_clean get_profile_clean
        split: option.splits sum.splits)
qed (simp_all add: home_clean register_clean login_clean get_contents_clean get_content_clean
      publisher_only_clean publisher_handlers_clean assms)

lemma User_create_password:
  "User_create now un em pw rl st = Inr (u, st') \<Longrightarrow>
   users st' = users st @ [u] \<and> password u = pw \<and> profile u = JObj [] \<and> role u = rl"
  by (auto dest!: User_create_done)

lemma register_users:
  assumes "u \<in> set (users (snd (register e now body st)))" "u \<notin> set (users st)"
  shows "\<exists>pw. reg_password body = Some pw \<and> password u = bcrypt_hash e pw 10"
  using assms
  by (auto simp: register_def Let_def split: option.splits sum.splits
      dest!: User_create_password)

lemma Content_update_users: "Content_update now c b st = Inr (c', st') \<Longrightarrow> users st' = users st"
  by (auto dest!: Content_update_done)

lemma Content_create_users:
  "Content_create now ti co ty ca tg fi vu rt pid st = Inr (r, st') \<Longrightarrow> users st' = users st"
  by (auto dest!: Content_create_done)

lemma publisher_only_users:
  assumes "\<And>user. users (snd (handler user)) = users st"
  shows "users (snd (publisher_only e h handler st)) = users st"
  using assms by (simp add: publisher_only_def split: sum.splits)

lemma serve_users:
  "(\<forall>body. req \<noteq> Register body) \<Longrightarrow> users (snd (serve e now h req st)) = users st"
proof (cases req)
  case (GetContent i)
  then show ?thesis
    by (auto simp: get_content_def split: option.splits sum.splits dest: increment_users)
next
  case (CreateContent body)
  then show ?thesis
    by (auto intro!: publisher_only_users simp: create_content_def split: sum.splits
        dest: Content_create_users)
next
  case (UpdateContent i body)
  then show ?thesis
    by (auto intro!: publisher_only_users simp: update_content_def
        split: sum.splits option.splits dest: Content_update_users)
next
  case (PublishContent i)
  then show ?thesis
    by (auto intro!: publisher_only_users simp: publish_content_def
        split: sum.splits option.splits dest: Content_update_users)
qed (auto simp: login_def get_contents_def Let_def publisher_only_users publisher_contents_def
      authenticated_def get_profile_def split: option.splits sum.splits)

lemma syncDatabase_users:
  assumes "u \<in> set (users (syncDatabase e now st))" "u \<notin> set (users st)"
  shows "password u = bcrypt_hash e ''publisher123'' 10 \<and> role u = ''publisher''"
  using assms
  by (auto simp: syncDatabase_def Let_def split: option.splits sum.splits
      dest!: User_create_password)

lemma register_201:
  assumes "fst (fst (register e now body st)) = 201"
  shows "\<exists>em pw u st'. reg_email body = Some em \<and> reg_password body = Some pw \<and>
           User_create now (reg_username body) (Some em) (bcrypt_hash e pw 10)
             (or_default (reg_role body) ''user'') st = Inr (u, st') \<and>
           register e now body st =
             ((201, auth_body ''User registered successfully'' (jwt_sign e (claims_of u)) u), st')"
proof (cases "reg_email body")
  case None
  with assms show ?thesis by (simp add: register_def Let_def server_error_def)
next
  case (Some em)
  show ?thesis
  proof (cases "User_findOne_email em st")
    case u: (Some u)
    with Some assms show ?thesis by (simp add: register_def Let_def)
  next
    case None
    show ?thesis
    proof (cases "reg_password body")
      case pn: None
      with None Some assms show ?thesis by (simp add: register_def Let_def server_error_def)
    next
      case pw: (Some pw)
      show ?thesis
      proof (cases "User_create now (reg_username body) (Some em) (bcrypt_hash e pw 10)
             (or_default (reg_role body) ''user'') st")
        case (Inl f)
        with pw None Some assms show ?thesis by (simp add: register_def Let_def server_error_def)
      next
        case (Inr p)
        obtain u st' where "p = (u, st')" by (cases p)
        with Inr pw None Some show ?thesis by (simp add: register_def Let_def)
      qed
    qed
  qed
qed

lemma register_body:
  assumes "fst (fst (register e now body st)) = 201"
  shows "\<exists>u \<in> set (users (snd (register e now body st))).
           snd (fst (register e now body st)) =
             JObj [(''message'', JStr ''User registered successfully''),
                   (''token'', JStr (jwt_sign e \<lparr>cl_id = u_id u, cl_username = username u,
                                                 cl_role = role u\<rparr>)),
                   (''user'', JObj [(''id'', JNum (u_id u)), (''username'', JStr (username u)),
                                    (''email'', JStr (email u)), (''role'', JStr (role u))])]"
proof -
  from register_201 [OF assms] obtain em pw u st' where
    c: "User_create now (reg_username body) (Some em) (bcrypt_hash e pw 10)
             (or_default (reg_role body) ''user'') st = Inr (u, st')"
    and r: "register e now body st =
             ((201, auth_body ''User registered successfully'' (jwt_sign e (claims_of u)) u), st')"
    by blast
  from User_create_password [OF c] have "u \<in> set (users st')" by simp
  with r show ?thesis by (auto simp: auth_body_def claims_of_def)
qed

lemma login_200:
  assumes "fst (fst (login e body st)) = 200"
  shows "\<exists>em u. login_email body = Some em \<and> User_findOne_email em st = Some u \<and>
           login e body st =
             ((200, auth_body ''Login successful'' (jwt_sign e (claims_of u)) u), st)"
proof (cases "login_email body")
  case None
  with assms show ?thesis by (simp add: login_def server_error_def)
next
  case (Some em)
  show ?thesis
  proof (cases "User_findOne_email em st")
    case None
    with Some assms show ?thesis by (simp add: login_def)
  next
    case u: (Some u)
    show ?thesis
    proof (cases "login_password body")
      case None
      with u Some assms show ?thesis by (simp add: login_def server_error_def)
    next
      case pw: (Some pw)
      with u Some assms show ?thesis by (simp add: login_def split: if_splits)
    qed
  qed
qed

lemma login_body:
  assumes "fst (fst (login e body st)) = 200"
  shows "\<exists>u \<in> set (users (snd (login e body st))).
           snd (fst (login e body st)) =
             JObj [(''message'', JStr ''Login successful''),
                   (''token'', JStr (jwt_sign e \<lparr>cl_id = u_id u, cl_username = username u,
                                                 cl_role = role u\<rparr>)),
                   (''user'', JObj [(''id'', JNum (u_id u)), (''username'', JStr (username u)),
                                    (''email'', JStr (email u)), (''role'', JStr (role u))])]"
proof -
  from login_200 [OF assms] obtain em u where
    f: "User_findOne_email em st = Some u"
    and r: "login e body st =
             ((200, auth_body ''Login successful'' (jwt_sign e (claims_of u)) u), st)"
    by blast
  from email_lookup_Some [OF f] have "u \<in> set (users st)" by simp
  with r show ?thesis by (auto simp: auth_body_def claims_of_def)
qed

lemma profile_route:
  "authenticateToken e h = Inr user \<Longrightarrow> User_findByPk (cl_id user) st = Some u \<Longrightarrow>
   serve e now h Profile st =
     ((200, JObj [(''id'', JNum (u_id u)), (''username'', JStr (username u)),
                  (''email'', JStr (email u)), (''role'', JStr (role u)),
                  (''profile'', profile u), (''createdAt'', JNum (int (u_createdAt u))),
                  (''updatedAt'', JNum (int (u_updatedAt u)))]), st)"
  by (simp add: authenticated_def get_profile_def profile_body_fields)

text \<open>
  Beyond attribute names: what a response is computed from. Outside the login route, whose
  outcome is decided by \<open>bcrypt.compare\<close> on the stored hash, no handler reads the password
  column, so the response is the same on the tables with every password blanked; and the
  model calls do to the blanked tables what they do to the tables.
\<close>

lemma scrub_fields:
  "contents (scrub st) = contents st" "next_user_id (scrub st) = next_user_id st"
  "next_content_id (scrub st) = next_content_id st"
  "map email (users (scrub st)) = map email (users st)"
  "map u_id (users (scrub st)) = map u_id (users st)"
  by (simp_all add: scrub_def blank_def)

lemma scrub_find:
  assumes "\<And>u. P (blank u) = P u"
  shows "find P (users (scrub st)) = map_option blank (find P (users st))"
proof -
  have "P \<circ> blank = P" using assms by (simp add: fun_eq_iff)
  then show ?thesis by (simp add: scrub_def find_map_option)
qed

lemma scrub_findByPk:
  "User_findByPk i (scrub st) = map_option blank (User_findByPk i st)"
  unfolding User_findByPk_def by (rule scrub_find) (simp add: blank_def)

lemma scrub_findOne_email:
  "User_findOne_email em (scrub st) = map_option blank (User_findOne_email em st)"
  unfolding User_findOne_email_def by (rule scrub_find) (simp add: blank_def)

lemma blank_attrs:
  "only_attrs [''id'', ''username'', ''profile''] (user_attrs (blank u)) =
     only_attrs [''id'', ''username'', ''profile''] (user_attrs u)"
  "exclude_attrs [''password''] (user_attrs (blank u)) = exclude_attrs [''password''] (user_attrs u)"
  "auth_body msg token (blank u) = auth_body msg token u"
  "claims_of (blank u) = claims_of u"
  by (simp_all add: only_attrs_def exclude_attrs_def user_attrs_def auth_body_def claims_of_def
      blank_def)

lemma scrub_content_with_user: "content_with_user (scrub st) c = content_with_user st c"
  by (cases "User_findByPk (publisherId c) st")
     (simp_all add: content_with_user_def scrub_findByPk blank_attrs)

lemma content_with_user_users:
  "users s1 = users s2 \<Longrightarrow> content_with_user s1 c = content_with_user s2 c"
  by (simp add: content_with_user_def User_findByPk_def)

lemma scrub_contents_update: "scrub (st\<lparr>contents := cs\<rparr>) = (scrub st)\<lparr>contents := cs\<rparr>"
  by (simp add: scrub_def)

lemma scrub_User_create:
  "(case User_create now un em pw rl (scrub st) of Inl f \<Rightarrow> Inl f | Inr p \<Rightarrow> Inr (fst p)) =
   (case User_create now un em pw rl st of Inl f \<Rightarrow> Inl f | Inr p \<Rightarrow> Inr (fst p))"
  by (simp add: User_create_def Let_def scrub_fields split: option.splits)

lemma scrub_Content_create:
  "(case Content_create now ti co ty ca tg fi vu rt pid (scrub st) of
      Inl f \<Rightarrow> Inl f | Inr p \<Rightarrow> Inr (fst p)) =
   (case Content_create now ti co ty ca tg fi vu rt pid st of
      Inl f \<Rightarrow> Inl f | Inr p \<Rightarrow> Inr (fst p))"
  by (simp add: Content_create_def Let_def scrub_fields split: option.splits)

lemma scrub_Content_update:
  "(case Content_update now c b (scrub st) of Inl f \<Rightarrow> Inl f | Inr p \<Rightarrow> Inr (fst p)) =
   (case Content_update now c b st of Inl f \<Rightarrow> Inl f | Inr p \<Rightarrow> Inr (fst p))"
  by (simp add: Content_update_def Let_def scrub_fields split: option.splits)

lemma scrub_increment:
  "Content_increment_views now c (scrub st) =
     (case Content_increment_views now c st of
        Inl f \<Rightarrow> Inl f | Inr (c', st') \<Rightarrow> Inr (c', scrub st'))"
  by (simp add: Content_increment_views_def scrub_fields scrub_contents_update)

lemma scrub_register: "fst (register e now body (scrub st)) = fst (register e now body st)"
proof (cases "reg_email body")
  case None
  then show ?thesis by (simp add: register_def Let_def)
next
  case (Some em)
  show ?thesis
  proof (cases "User_findOne_email em st")
    case (Some u)
    with \<open>reg_email body = Some em\<close> show ?thesis
      by (simp add: register_def Let_def scrub_findOne_email)
  next
    case None
    show ?thesis
    proof (cases "reg_password body")
      case None
      with \<open>reg_email body = Some em\<close> \<open>User_findOne_email em st = None\<close> show ?thesis
        by (simp add: register_def Let_def scrub_findOne_email)
    next
      case (Some pw)
      let ?rl = "or_default (reg_role body) ''user''"
      note scrub_User_create [of now "reg_username body" "Some em" "bcrypt_hash e pw 10" ?rl st]
      with Some \<open>reg_email body = Some em\<close> \<open>User_findOne_email em st = None\<close> show ?thesis
        by (cases "User_create now (reg_username body) (Some em) (bcrypt_hash e pw 10) ?rl (scrub st)";
            cases "User_create now (reg_username body) (Some em) (bcrypt_hash e pw 10) ?rl st")
           (auto simp: register_def Let_def scrub_findOne_email)
    qed
  qed
qed

lemma scrub_get_contents: "fst (get_contents e q (scrub st)) = fst (get_contents e q st)"
proof -
  have "content_with_user (scrub st) = content_with_user st"
    by (rule ext) (rule scrub_content_with_user)
  then show ?thesis
    by (simp add: get_contents_def Let_def Content_findAll_published_def scrub_fields
        split: option.splits)
qed

lemma scrub_get_content: "fst (get_content e now i (scrub st)) = fst (get_content e now i st)"
proof -
  have f: "Content_findOne_published i (scrub st) = Content_findOne_published i st"
    by (simp add: Content_findOne_published_def scrub_fields)
  show ?thesis
    by (simp add: get_content_def f scrub_increment scrub_content_with_user
        split: sum.splits option.splits)
qed

lemma scrub_publisher_handlers:
  "fst (publisher_contents user (scrub st)) = fst (publisher_contents user st)"
  "fst (create_content e now user body (scrub st)) = fst (create_content e now user body st)"
  "fst (update_content e now user i ubody (scrub st)) = fst (update_content e now user i ubody st)"
  "fst (publish_content e now user i (scrub st)) = fst (publish_content e now user i st)"
proof -
  show "fst (publisher_contents user (scrub st)) = fst (publisher_contents user st)"
    by (simp add: publisher_contents_def Content_findAll_owned_def scrub_fields)
  let ?cr = "\<lambda>s. Content_create now (b_title body) (b_content body) (b_type body) (b_category body)
             (or_default (b_tags body) []) (b_featuredImage body) (b_videoUrl body)
             (b_readTime body) (cl_id user) s"
  from scrub_Content_create [of now "b_title body" "b_content body" "b_type body" "b_category body"
      "or_default (b_tags body) []" "b_featuredImage body" "b_videoUrl body" "b_readTime body"
      "cl_id user" st]
  show "fst (create_content e now user body (scrub st)) = fst (create_content e now user body st)"
    by (cases "?cr (scrub st)"; cases "?cr st") (auto simp: create_content_def)
  have f: "Content_findOne_owned i (cl_id user) (scrub st) = Content_findOne_owned i (cl_id user) st"
    by (simp add: Content_findOne_owned_def scrub_fields)
  have upd: "\<And>c b rb.
      fst (case Content_update now c b (scrub st) of
             Inl f \<Rightarrow> (server_error e f, scrub st)
           | Inr (c', st') \<Rightarrow> ((200, rb c'), st')) =
      fst (case Content_update now c b st of
             Inl f \<Rightarrow> (server_error e f, st)
           | Inr (c', st') \<Rightarrow> ((200 :: nat, rb c' :: json), st'))"
  proof -
    fix c b rb
    from scrub_Content_update [of now c b st]
    show "fst (case Content_update now c b (scrub st) of
             Inl f \<Rightarrow> (server_error e f, scrub st)
           | Inr (c', st') \<Rightarrow> ((200, rb c'), st')) =
      fst (case Content_update now c b st of
             Inl f \<Rightarrow> (server_error e f, st)
           | Inr (c', st') \<Rightarrow> ((200 :: nat, rb c' :: json), st'))"
      by (cases "Content_update now c b (scrub st)"; cases "Content_update now c b st") auto
  qed
  show "fst (update_content e now user i ubody (scrub st)) = fst (update_content e now user i ubody st)"
    using upd [where b = ubody and rb = "\<lambda>c'. JObj (content_attrs c')"]
    by (simp add: update_content_def f split: sum.splits option.splits)
  show "fst (publish_content e now user i (scrub st)) = fst (publish_content e now user i st)"
    using upd [where b = "empty_update\<lparr>p_status := Val ''published''\<rparr>"
        and rb = "\<lambda>c'. JObj [(''message'', JStr ''Content published successfully''),
                     (''content'', JObj (content_attrs c'))]"]
    by (simp add: publish_content_def f split: sum.splits option.splits)
qed

lemma scrub_publisher_only:
  assumes "\<And>user. fst (handler' user) = fst (handler user)"
  shows "fst (publisher_only e h handler' (scrub st)) = fst (publisher_only e h handler st)"
  using assms by (simp add: publisher_only_def split: sum.splits)

lemma responses_ignore_passwords:
  assumes "\<forall>body. req \<noteq> Login body"
  shows "fst (serve e now h req (scrub st)) = fst (serve e now h req st)"
proof (cases req)
  case (Login body)
  with assms show ?thesis by simp
next
  case Profile
  then show ?thesis
    by (cases "User_findByPk (cl_id (projr (authenticateToken e h))) st")
       (auto simp: authenticated_def get_profile_def scrub_findByPk blank_attrs
          split: sum.splits option.splits)
qed (simp_all add: scrub_register scrub_get_contents scrub_get_content scrub_publisher_only
      scrub_publisher_handlers)

lemma responses_same_passwords_apart:
  assumes "scrub st2 = scrub st" "\<forall>body. req \<noteq> Login body"
  shows "fst (serve e now h req st2) = fst (serve e now h req st)"
proof -
  have "fst (serve e now h req st2) = fst (serve e now h req (scrub st2))"
    using assms(2) by (simp add: responses_ignore_passwords)
  also have "\<dots> = fst (serve e now h req st)"
    using assms by (simp add: responses_ignore_passwords)
  finally show ?thesis .
qed

lemma login_same_status:
  assumes "scrub st2 = scrub st"
    and "fst (fst (login e body st2)) = fst (fst (login e body st))"
  shows "fst (login e body st2) = fst (login e body st)"
proof (cases "login_email body")
  case None
  then show ?thesis by (simp add: login_def)
next
  case (Some em)
  have l: "map_option blank (User_findOne_email em st2) = map_option blank (User_findOne_email em st)"
    using assms(1) scrub_findOne_email [of em st2] scrub_findOne_email [of em st] by simp
  show ?thesis
  proof (cases "User_findOne_email em st")
    case None
    with l have "User_findOne_email em st2 = None" by simp
    with None Some show ?thesis by (simp add: login_def)
  next
    case u: (Some u)
    with l obtain u2 where u2: "User_findOne_email em st2 = Some u2" "blank u2 = blank u"
      by (cases "User_findOne_email em st2") auto
    from u2(2) have same: "auth_body ''Login successful'' (jwt_sign e (claims_of u2)) u2 =
        auth_body ''Login successful'' (jwt_sign e (claims_of u)) u"
      by (metis blank_attrs(3) blank_attrs(4))
    show ?thesis
    proof (cases "login_password body")
      case None
      with Some u u2 show ?thesis by (simp add: login_def)
    next
      case pw: (Some pw)
      with Some u u2 same assms(2) show ?thesis
        by (auto simp: login_def split: if_splits)
    qed
  qed
qed

lemma findByPk_wf:
  assumes "wf_store st" "u \<in> set (users st)"
  shows "User_findByPk (u_id u) st = Some u"
proof -
  from assms(2) have "User_findByPk (u_id u) st \<noteq> None"
    by (auto simp: User_findByPk_def find_None_iff)
  then obtain u' where u': "User_findByPk (u_id u) st = Some u'" by auto
  then have "u' \<in> set (users st)" "u_id u' = u_id u"
    by (auto simp: User_findByPk_def find_Some_iff)
  moreover from assms(1) have "inj_on u_id (set (users st))"
    by (simp add: wf_store_def distinct_map)
  ultimately have "u' = u" using assms(2) by (auto dest: inj_onD)
  with u' show ?thesis by simp
qed

text \<open>
  Claim C8. Let the profile documents of the tables have no attribute \<open>password\<close> (every
  profile this program stores is \<open>{}\<close>), and let \<open>bcrypt.hash\<close> never return its own
  argument. Then: no response body of any route has an attribute named \<open>password\<close>, at any
  depth; every user row a request adds is added by registration and its password column
  holds \<open>bcrypt.hash\<close> of the submitted plaintext, not the plaintext; the user row the
  bootstrap adds holds \<open>bcrypt.hash\<close> of its fixed password, not that password; a successful
  register or login answers exactly a message, a token signed for the id, username and
  role of the user, and the user's id, username, email and role; \<open>GET /api/profile\<close>
  answers the row of the user whose id the token carries, as its id, username, email,
  role, profile and timestamps, without the password; and no response depends on a stored
  password: on any two states of the tables that differ only in stored passwords, every
  request but a login is answered the same, and a login is answered the same whenever its
  status code is the same. Nor is the plaintext of a registration kept anywhere: the
  response and the tables depend on it only through its hash.
\<close>

theorem password_never_returned:
  assumes "clean_profiles st" and "\<forall>p. bcrypt_hash e p 10 \<noteq> p"
  shows "\<not> mentions ''password'' (snd (fst (serve e now h req st))) \<and>
         (\<forall>u \<in> set (users (snd (serve e now h req st))). u \<notin> set (users st) \<longrightarrow>
            (\<exists>body pw. req = Register body \<and> reg_password body = Some pw \<and>
               password u = bcrypt_hash e pw 10 \<and> password u \<noteq> pw)) \<and>
         (\<forall>u \<in> set (users (syncDatabase e now st)). u \<notin> set (users st) \<longrightarrow>
            password u = bcrypt_hash e ''publisher123'' 10 \<and> password u \<noteq> ''publisher123'') \<and>
         (\<forall>body. req = Register body \<longrightarrow> fst (fst (serve e now h req st)) = 201 \<longrightarrow>
            (\<exists>u \<in> set (users (snd (serve e now h req st))).
               snd (fst (serve e now h req st)) =
                 JObj [(''message'', JStr ''User registered successfully''),
                       (''token'', JStr (jwt_sign e \<lparr>cl_id = u_id u, cl_username = username u,
                                                     cl_role = role u\<rparr>)),
                       (''user'', JObj [(''id'', JNum (u_id u)), (''username'', JStr (username u)),
                                        (''email'', JStr (email u)), (''role'', JStr (role u))])])) \<and>
         (\<forall>body. req = Login body \<longrightarrow> fst (fst (serve e now h req st)) = 200 \<longrightarrow>
            (\<exists>u \<in> set (users st).
               snd (fst (serve e now h req st)) =
                 JObj [(''message'', JStr ''Login successful''),
                       (''token'', JStr (jwt_sign e \<lparr>cl_id = u_id u, cl_username = username u,
                                                     cl_role = role u\<rparr>)),
                       (''user'', JObj [(''id'', JNum (u_id u)), (''username'', JStr (username u)),
                                        (''email'', JStr (email u)), (''role'', JStr (role u))])])) \<and>
         (\<forall>user u. wf_store st \<longrightarrow> authenticateToken e h = Inr user \<longrightarrow>
            u \<in> set (users st) \<longrightarrow> u_id u = cl_id user \<longrightarrow>
            serve e now h Profile st =
              ((200, JObj [(''id'', JNum (u_id u)), (''username'', JStr (username u)),
                           (''email'', JStr (email u)), (''role'', JStr (role u)),
                           (''profile'', profile u),
                           (''createdAt'', JNum (int (u_createdAt u))),
                           (''updatedAt'', JNum (int (u_updatedAt u)))]), st)) \<and>
         (\<forall>st2. scrub st2 = scrub st \<longrightarrow>
            ((\<forall>body. req \<noteq> Login body) \<longrightarrow>
               fst (serve e now h req st2) = fst (serve e now h req st)) \<and>
            (fst (fst (serve e now h req st2)) = fst (fst (serve e now h req st)) \<longrightarrow>
               fst (serve e now h req st2) = fst (serve e now h req st))) \<and>
         (\<forall>body pw pw2. req = Register body \<longrightarrow> reg_password body = Some pw \<longrightarrow>
            bcrypt_hash e pw 10 = bcrypt_hash e pw2 10 \<longrightarrow>
            serve e now h (Register (body\<lparr>reg_password := Some pw2\<rparr>)) st =
              serve e now h req st)"
proof (intro conjI)
  show "\<forall>body pw pw2. req = Register body \<longrightarrow> reg_password body = Some pw \<longrightarrow>
            bcrypt_hash e pw 10 = bcrypt_hash e pw2 10 \<longrightarrow>
            serve e now h (Register (body\<lparr>reg_password := Some pw2\<rparr>)) st =
              serve e now h req st"
    by (auto simp: register_def Let_def split: option.splits)
  show "\<not> mentions ''password'' (snd (fst (serve e now h req st)))"
    by (rule serve_clean [OF assms(1)])
  show "\<forall>u \<in> set (users (snd (serve e now h req st))). u \<notin> set (users st) \<longrightarrow>
            (\<exists>body pw. req = Register body \<and> reg_password body = Some pw \<and>
               password u = bcrypt_hash e pw 10 \<and> password u \<noteq> pw)"
  proof (cases "\<exists>body. req = Register body")
    case True
    then obtain body where "req = Register body" by blast
    then show ?thesis using register_users [of _ e now body st] assms(2) by fastforce
  next
    case False
    then have "users (snd (serve e now h req st)) = users st" by (simp add: serve_users)
    then show ?thesis by simp
  qed
  show "\<forall>u \<in> set (users (syncDatabase e now st)). u \<notin> set (users st) \<longrightarrow>
            password u = bcrypt_hash e ''publisher123'' 10 \<and> password u \<noteq> ''publisher123''"
    using syncDatabase_users [of _ e now st] assms(2) by auto
  show "\<forall>body. req = Register body \<longrightarrow> fst (fst (serve e now h req st)) = 201 \<longrightarrow>
            (\<exists>u \<in> set (users (snd (serve e now h req st))).
               snd (fst (serve e now h req st)) =
                 JObj [(''message'', JStr ''User registered successfully''),
                       (''token'', JStr (jwt_sign e \<lparr>cl_id = u_id u, cl_username = username u,
                                                     cl_role = role u\<rparr>)),
                       (''user'', JObj [(''id'', JNum (u_id u)), (''username'', JStr (username u)),
                                        (''email'', JStr (email u)), (''role'', JStr (role u))])])"
    using register_body [of e now _ st] by auto
  show "\<forall>body. req = Login body \<longrightarrow> fst (fst (serve e now h req st)) = 200 \<longrightarrow>
            (\<exists>u \<in> set (users st).
               snd (fst (serve e now h req st)) =
                 JObj [(''message'', JStr ''Login successful''),
                       (''token'', JStr (jwt_sign e \<lparr>cl_id = u_id u, cl_username = username u,
                                                     cl_role = role u\<rparr>)),
                       (''user'', JObj [(''id'', JNum (u_id u)), (''username'', JStr (username u)),
                                        (''email'', JStr (email u)), (''role'', JStr (role u))])])"
  proof (intro allI impI)
    fix body assume "req = Login body" "fst (fst (serve e now h req st)) = 200"
    then have ok: "fst (fst (login e body st)) = 200" by simp
    have "snd (login e body st) = st" by (auto simp: login_def split: option.splits)
    with login_body [OF ok] \<open>req = Login body\<close>
    show "\<exists>u \<in> set (users st).
               snd (fst (serve e now h req st)) =
                 JObj [(''message'', JStr ''Login successful''),
                       (''token'', JStr (jwt_sign e \<lparr>cl_id = u_id u, cl_username = username u,
                                                     cl_role = role u\<rparr>)),
                       (''user'', JObj [(''id'', JNum (u_id u)), (''username'', JStr (username u)),
                                        (''email'', JStr (email u)), (''role'', JStr (role u))])]"
      by simp
  qed
  show "\<forall>user u. wf_store st \<longrightarrow> authenticateToken e h = Inr user \<longrightarrow>
            u \<in> set (users st) \<longrightarrow> u_id u = cl_id user \<longrightarrow>
            serve e now h Profile st =
              ((200, JObj [(''id'', JNum (u_id u)), (''username'', JStr (username u)),
                           (''email'', JStr (email u)), (''role'', JStr (role u)),
                           (''profile'', profile u),
                           (''createdAt'', JNum (int (u_createdAt u))),
                           (''updatedAt'', JNum (int (u_updatedAt u)))]), st)"
  proof (intro allI impI)
    fix user u
    assume "wf_store st" "authenticateToken e h = Inr user" "u \<in> set (users st)"
      "u_id u = cl_id user"
    with findByPk_wf [of st u] have "User_findByPk (cl_id user) st = Some u" by simp
    with \<open>authenticateToken e h = Inr user\<close>
    show "serve e now h Profile st =
              ((200, JObj [(''id'', JNum (u_id u)), (''username'', JStr (username u)),
                           (''email'', JStr (email u)), (''role'', JStr (role u)),
                           (''profile'', profile u),
                           (''createdAt'', JNum (int (u_createdAt u))),
                           (''updatedAt'', JNum (int (u_updatedAt u)))]), st)"
      by (rule profile_route)
  qed
  show "\<forall>st2. scrub st2 = scrub st \<longrightarrow>
            ((\<forall>body. req \<noteq> Login body) \<longrightarrow>
               fst (serve e now h req st2) = fst (serve e now h req st)) \<and>
            (fst (fst (serve e now h req st2)) = fst (fst (serve e now h req st)) \<longrightarrow>
               fst (serve e now h req st2) = fst (serve e now h req st))"
  proof (intro allI impI conjI)
    fix st2 assume s: "scrub st2 = scrub st"
    { assume "\<forall>body. req \<noteq> Login body"
      with s show "fst (serve e now h req st2) = fst (serve e now h req st)"
        by (rule responses_same_passwords_apart) }
    { assume c: "fst (fst (serve e now h req st2)) = fst (fst (serve e now h req st))"
      show "fst (serve e now h req st2) = fst (serve e now h req st)"
      proof (cases "\<exists>body. req = Login body")
        case True
        then obtain body where "req = Login body" by blast
        with c login_same_status [OF s, of e body] show ?thesis by simp
      next
        case False
        then have "\<forall>body. req \<noteq> Login body" by simp
        with s show ?thesis by (rule responses_same_passwords_apart)
      qed }
  qed
qed

lemma serve_clean_profiles:
  assumes "clean_profiles st"
  shows "clean_profiles (snd (serve e now h req st))"
proof (cases "\<exists>body. req = Register body")
  case True
  then obtain body where "req = Register body" by blast
  with assms show ?thesis
    by (auto simp: register_def Let_def clean_profiles_def
        split: option.splits sum.splits dest!: User_create_password)
next
  case False
  then have "users (snd (serve e now h req st)) = users st" by (simp add: serve_users)
  with assms show ?thesis by (simp add: clean_profiles_def)
qed

section \<open>The properties on the sample deployment\<close>

lemmas sample_defs =
  sample_store_def sample_env_def sample_verify_def alice_def bob_def carol_def
  item1_def item2_def item3_def item4_def no_query_def null_views_def

lemmas route_defs =
  publisher_only_def authenticated_def authenticateToken_def requirePublisher_def
  bearer_token_def register_def login_def get_contents_def get_content_def
  publisher_contents_def create_content_def update_content_def publish_content_def
  get_profile_def server_error_def error_body_def auth_body_def claims_of_def

lemmas model_defs =
  User_findOne_email_def User_findOne_role_def User_findByPk_def User_create_def
  Content_create_def Content_findOne_published_def Content_findOne_owned_def
  Content_update_def Content_increment_views_def Content_findAll_published_def
  Content_findAll_owned_def apply_body_def or_default_def truthy_def empty_body_def
  empty_update_def role_values_def type_values_def status_values_def newest_first_def Let_def
  refuse_if_def check_text_def check_varchar_def check_int4_def check_enum_def on_some_def
  on_val_def set_required_def set_nullable_def bump_views_def where_string_def int4_def
  pg_text_def limit_offset_def safe_integer_def

lemma sample_wf: "wf_store sample_store"
  by (simp add: wf_store_def sample_defs int4_def)

lemma sample_clean: "clean_profiles sample_store"
  by (simp add: clean_profiles_def sample_defs)

lemma sample_hash: "\<forall>p. bcrypt_hash sample_env p 10 \<noteq> p"
proof
  fix p
  have "length (bcrypt_hash sample_env p 10) \<noteq> length p" by (simp add: sample_env_def)
  then show "bcrypt_hash sample_env p 10 \<noteq> p" by auto
qed

lemma alice_token:
  "authenticateToken sample_env (Some ''Bearer alice'') =
     Inr \<lparr>cl_id = 1, cl_username = ''alice'', cl_role = ''publisher''\<rparr>"
  by (simp add: authenticateToken_def bearer_token_def sample_defs)

text \<open>
  The four outcomes of C3 on the sample deployment: no token, a forged token, the token of
  the user-role account \<open>bob\<close>, the token of the publisher \<open>carol\<close>.
\<close>

theorem publisher_routes_guarded_witness:
  "is_publisher_route (PublishContent 2) \<and>
   bearer_token (Some ''Bearer'') = None \<and>
   serve sample_env 50 (Some ''Bearer'') (PublishContent 2) sample_store =
     ((401, error_body ''Access token required''), sample_store) \<and>
   bearer_token (Some ''Bearer forged'') = Some ''forged'' \<and>
   jwt_verify sample_env ''forged'' = None \<and>
   serve sample_env 50 (Some ''Bearer forged'') (PublishContent 2) sample_store =
     ((403, error_body ''Invalid token''), sample_store) \<and>
   bearer_token (Some ''Bearer bob'') = Some ''bob'' \<and>
   jwt_verify sample_env ''bob'' = Some \<lparr>cl_id = 2, cl_username = ''bob'', cl_role = ''user''\<rparr> \<and>
   serve sample_env 50 (Some ''Bearer bob'') (PublishContent 2) sample_store =
     ((403, error_body ''Publisher access required''), sample_store) \<and>
   bearer_token (Some ''Bearer carol'') = Some ''carol'' \<and>
   jwt_verify sample_env ''carol'' =
     Some \<lparr>cl_id = 3, cl_username = ''carol'', cl_role = ''publisher''\<rparr> \<and>
   serve sample_env 50 (Some ''Bearer carol'') (PublishContent 2) sample_store =
     publish_content sample_env 50 \<lparr>cl_id = 3, cl_username = ''carol'', cl_role = ''publisher''\<rparr>
       2 sample_store"
proof -
  have r: "is_publisher_route (PublishContent 2)" by simp
  have t0: "bearer_token (Some ''Bearer'') = None" by (simp add: bearer_token_def)
  have t1: "bearer_token (Some ''Bearer forged'') = Some ''forged''" by (simp add: bearer_token_def)
  have v1: "jwt_verify sample_env ''forged'' = None" by (simp add: sample_defs)
  have t2: "bearer_token (Some ''Bearer bob'') = Some ''bob''" by (simp add: bearer_token_def)
  have v2: "jwt_verify sample_env ''bob'' = Some \<lparr>cl_id = 2, cl_username = ''bob'', cl_role = ''user''\<rparr>"
    by (simp add: sample_defs)
  have t3: "bearer_token (Some ''Bearer carol'') = Some ''carol''" by (simp add: bearer_token_def)
  have v3: "jwt_verify sample_env ''carol'' =
     Some \<lparr>cl_id = 3, cl_username = ''carol'', cl_role = ''publisher''\<rparr>"
    by (simp add: sample_defs)
  note g = publisher_routes_guarded [OF r, of _ sample_env 50 sample_store]
  from g [of "Some ''Bearer''"] t0
  have a: "serve sample_env 50 (Some ''Bearer'') (PublishContent 2) sample_store =
     ((401, error_body ''Access token required''), sample_store)" by blast
  from g [of "Some ''Bearer forged''"] t1 v1
  have b: "serve sample_env 50 (Some ''Bearer forged'') (PublishContent 2) sample_store =
     ((403, error_body ''Invalid token''), sample_store)" by blast
  from g [of "Some ''Bearer bob''"] t2 v2
  have c: "serve sample_env 50 (Some ''Bearer bob'') (PublishContent 2) sample_store =
     ((403, error_body ''Publisher access required''), sample_store)" by simp
  from g [of "Some ''Bearer carol''"] t3 v3
  have d: "serve sample_env 50 (Some ''Bearer carol'') (PublishContent 2) sample_store =
     publish_content sample_env 50 \<lparr>cl_id = 3, cl_username = ''carol'', cl_role = ''publisher''\<rparr>
       2 sample_store" by simp
  from r t0 a t1 v1 b t2 v2 c t3 v3 d show ?thesis by blast
qed

text \<open>
  Claim C3 as it is worded gives the three errors as \<open>access token required\<close>,
  \<open>invalid token\<close> and \<open>publisher access required\<close>. The bodies the middleware sends
  start with a capital: none of the lower-case bodies is the response.
\<close>

theorem publisher_routes_lowercase_counterexample:
  "serve sample_env 50 None (PublishContent 2) sample_store \<noteq>
     ((401, error_body ''access token required''), sample_store) \<and>
   serve sample_env 50 (Some ''Bearer forged'') (PublishContent 2) sample_store \<noteq>
     ((403, error_body ''invalid token''), sample_store) \<and>
   serve sample_env 50 (Some ''Bearer bob'') (PublishContent 2) sample_store \<noteq>
     ((403, error_body ''publisher access required''), sample_store)"
  by (simp add: publisher_only_cases bearer_token_def error_body_def sample_defs)

text \<open>
  C1 (amended) on the sample deployment: item 2 belongs to \<open>carol\<close>; \<open>alice\<close>, a publisher,
  can neither publish nor update it. Her update of her own item 1 is answered 200 and
  changes that row only. Her request for an id beyond the INTEGER range is answered 500.
\<close>

theorem only_owner_mutates_witness:
  "wf_store sample_store \<and>
   authenticateToken sample_env (Some ''Bearer alice'') =
     Inr \<lparr>cl_id = 1, cl_username = ''alice'', cl_role = ''publisher''\<rparr> \<and>
   publisherId item2 = 3 \<and>
   serve sample_env 50 (Some ''Bearer alice'') (PublishContent 2) sample_store =
     ((404, JObj [(''error'', JStr ''Content not found'')]), sample_store) \<and>
   serve sample_env 50 (Some ''Bearer alice'')
     (UpdateContent 2 (empty_update\<lparr>p_title := Val ''Mine''\<rparr>)) sample_store =
     ((404, JObj [(''error'', JStr ''Content not found'')]), sample_store) \<and>
   fst (fst (serve sample_env 50 (Some ''Bearer alice'')
     (UpdateContent 1 (empty_update\<lparr>p_title := Val ''Mine''\<rparr>)) sample_store)) = 200 \<and>
   contents (snd (serve sample_env 50 (Some ''Bearer alice'')
     (UpdateContent 1 (empty_update\<lparr>p_title := Val ''Mine''\<rparr>)) sample_store)) ! 0 \<noteq>
     contents sample_store ! 0 \<and>
   publisherId (contents sample_store ! 0) = 1 \<and>
   contents (snd (serve sample_env 50 (Some ''Bearer alice'')
     (UpdateContent 1 (empty_update\<lparr>p_title := Val ''Mine''\<rparr>)) sample_store)) ! 1 =
     contents sample_store ! 1 \<and>
   serve sample_env 50 (Some ''Bearer alice'') (PublishContent 2147483648) sample_store =
     ((500, JObj [(''error'', JStr ''failure'')]), sample_store)"
proof -
  let ?u = "\<lparr>cl_id = 1, cl_username = ''alice'', cl_role = ''publisher''\<rparr>"
  let ?b = "empty_update\<lparr>p_title := Val ''Mine''\<rparr>"
  let ?h = "Some ''Bearer alice''"
  let ?p = "serve sample_env 50 ?h (PublishContent 2) sample_store"
  let ?x = "serve sample_env 50 ?h (UpdateContent 2 ?b) sample_store"
  let ?o = "serve sample_env 50 ?h (UpdateContent 1 ?b) sample_store"
  let ?big = "serve sample_env 50 ?h (PublishContent 2147483648) sample_store"
  have other: "\<forall>c \<in> set (contents sample_store). c_id c = 2 \<longrightarrow> publisherId c \<noteq> cl_id ?u"
    by (simp add: sample_defs)
  have in2: "int4 2" and out: "\<not> int4 2147483648" by (simp_all add: int4_def)
  have p: "cl_role ?u = ''publisher''" by simp
  have rp: "?p = (fst ?p, snd ?p)" and rx: "?x = (fst ?x, snd ?x)" and ro: "?o = (fst ?o, snd ?o)"
    and rb: "?big = (fst ?big, snd ?big)"
    by simp_all
  have "PublishContent 2 = UpdateContent 2 ?b \<or> PublishContent 2 = PublishContent 2" by simp
  from only_owner_mutates [OF sample_wf alice_token p this rp] other in2
  have "fst ?p = (404, JObj [(''error'', JStr ''Content not found'')]) \<and> snd ?p = sample_store"
    by blast
  then have a: "?p = ((404, JObj [(''error'', JStr ''Content not found'')]), sample_store)"
    by (metis prod.collapse)
  have "UpdateContent 2 ?b = UpdateContent 2 ?b \<or> UpdateContent 2 ?b = PublishContent 2" by simp
  from only_owner_mutates [OF sample_wf alice_token p this rx] other in2
  have "fst ?x = (404, JObj [(''error'', JStr ''Content not found'')]) \<and> snd ?x = sample_store"
    by blast
  then have b: "?x = ((404, JObj [(''error'', JStr ''Content not found'')]), sample_store)"
    by (metis prod.collapse)
  have "PublishContent 2147483648 = UpdateContent 2147483648 ?b \<or>
        PublishContent 2147483648 = PublishContent 2147483648" by simp
  from only_owner_mutates [OF sample_wf alice_token p this rb] out
  have "fst ?big = (500, JObj [(''error'', JStr (message_of sample_env (OutOfRange ''id'')))]) \<and>
        snd ?big = sample_store"
    by blast
  then have "fst ?big = (500, JObj [(''error'', JStr ''failure'')]) \<and> snd ?big = sample_store"
    by (simp add: sample_env_def)
  then have big: "?big = ((500, JObj [(''error'', JStr ''failure'')]), sample_store)"
    by (metis prod.collapse)
  have ok: "fst (fst ?o) = 200"
    by (simp add: route_defs model_defs sample_defs)
  have ch: "contents (snd ?o) ! 0 \<noteq> contents sample_store ! 0"
    by (simp add: route_defs model_defs sample_defs)
  have same: "contents (snd ?o) ! 1 = contents sample_store ! 1"
    by (simp add: route_defs model_defs sample_defs)
  have len: "0 < length (contents sample_store)" by (simp add: sample_defs)
  have "UpdateContent 1 ?b = UpdateContent 1 ?b \<or> UpdateContent 1 ?b = PublishContent 1" by simp
  from only_owner_mutates [OF sample_wf alice_token p this ro] len ch
  have own: "publisherId (contents sample_store ! 0) = 1" by auto
  have "publisherId item2 = 3" by (simp add: item2_def)
  with sample_wf alice_token a b ok ch own same big show ?thesis by blast
qed

text \<open>
  Claim C1 as it is worded answers 404 whenever the id does not exist. No row has the id
  2147483648, which is beyond the INTEGER range of the column: the database refuses the
  comparison, and both routes answer 500.
\<close>

theorem only_owner_out_of_range_counterexample:
  "2147483648 \<notin> set (map c_id (contents sample_store)) \<and>
   fst (fst (serve sample_env 50 (Some ''Bearer alice'') (PublishContent 2147483648)
     sample_store)) = 500 \<and>
   fst (fst (serve sample_env 50 (Some ''Bearer alice'')
     (UpdateContent 2147483648 (empty_update\<lparr>p_title := Val ''Mine''\<rparr>)) sample_store)) = 500"
  by (simp add: route_defs model_defs sample_defs)

text \<open>
  C2 (amended) on the sample deployment: item 1 is \<open>alice\<close>'s draft, and no item has id 9.
\<close>

theorem unpublished_not_found_witness:
  "status item1 = Some ''draft'' \<and> publisherId item1 = 1 \<and>
   serve sample_env 50 None (GetContent 1) sample_store =
     ((404, JObj [(''error'', JStr ''Content not found'')]), sample_store) \<and>
   serve sample_env 50 (Some ''Bearer alice'') (GetContent 1) sample_store =
     ((404, JObj [(''error'', JStr ''Content not found'')]), sample_store) \<and>
   serve sample_env 50 None (GetContent 9) sample_store =
     ((404, JObj [(''error'', JStr ''Content not found'')]), sample_store) \<and>
   serve sample_env 50 None (GetContent (- 2147483649)) sample_store =
     ((500, JObj [(''error'', JStr ''failure'')]), sample_store)"
proof -
  have d: "\<forall>c \<in> set (contents sample_store). c_id c = 1 \<longrightarrow> status c \<noteq> Some ''published''"
    by (simp add: sample_defs)
  have n: "\<forall>c \<in> set (contents sample_store). c_id c = 9 \<longrightarrow> status c \<noteq> Some ''published''"
    by (simp add: sample_defs)
  have m: "\<forall>c \<in> set (contents sample_store). c_id c = - 2147483649 \<longrightarrow>
      status c \<noteq> Some ''published''"
    by (simp add: sample_defs)
  have i: "int4 1" "int4 9" "\<not> int4 (- 2147483649)" by (simp_all add: int4_def)
  have "status item1 = Some ''draft'' \<and> publisherId item1 = 1" by (simp add: item1_def)
  with unpublished_not_found [OF d, of sample_env 50 None]
    unpublished_not_found [OF d, of sample_env 50 "Some ''Bearer alice''"]
    unpublished_not_found [OF n, of sample_env 50 None]
    unpublished_not_found [OF m, of sample_env 50 None] i
  show ?thesis by (simp add: sample_env_def)
qed

text \<open>
  Claim C2 as it is worded answers 404 for every id of which no row exists. No row has
  the id 2147483648; the route answers 500.
\<close>

theorem unpublished_out_of_range_counterexample:
  "2147483648 \<notin> set (map c_id (contents sample_store)) \<and>
   serve sample_env 50 None (GetContent 2147483648) sample_store =
     ((500, JObj [(''error'', JStr ''failure'')]), sample_store)"
  by (simp add: route_defs model_defs sample_defs)








lemma scrub_scrub: "scrub (scrub st) = scrub st"
  by (simp add: scrub_def blank_def)

text \<open>
  C8 on the sample deployment: the profile of \<open>alice\<close> (also with the passwords blanked),
  the registration of \<open>dave\<close>, and the bootstrap of empty tables.
\<close>

theorem password_never_returned_witness:
  "clean_profiles sample_store \<and>
   \<not> mentions ''password'' (snd (fst (serve sample_env 50 (Some ''Bearer alice'') Profile sample_store))) \<and>
   serve sample_env 50 (Some ''Bearer alice'') Profile sample_store =
     ((200, JObj [(''id'', JNum 1), (''username'', JStr ''alice''),
                  (''email'', JStr ''alice@news.com''), (''role'', JStr ''publisher''),
                  (''profile'', JObj []), (''createdAt'', JNum 1), (''updatedAt'', JNum 1)]),
      sample_store) \<and>
   password (last (users (snd (serve sample_env 50 None
     (Register \<lparr>reg_username = Some ''dave'', reg_email = Some ''dave@news.com'',
                reg_password = Some ''pw1'', reg_role = None\<rparr>) sample_store)))) = ''$2a$pw1'' \<and>
   password (last (users (syncDatabase sample_env 50 empty_store))) = ''$2a$publisher123'' \<and>
   fst (serve sample_env 50 (Some ''Bearer alice'') Profile (scrub sample_store)) =
     (200, JObj [(''id'', JNum 1), (''username'', JStr ''alice''),
                 (''email'', JStr ''alice@news.com''), (''role'', JStr ''publisher''),
                 (''profile'', JObj []), (''createdAt'', JNum 1), (''updatedAt'', JNum 1)])"
proof -
  let ?fresh = "\<lparr>reg_username = Some ''dave'', reg_email = Some ''dave@news.com'',
                reg_password = Some ''pw1'', reg_role = None\<rparr>"
  let ?reg = "serve sample_env 50 None (Register ?fresh) sample_store"
  let ?u = "last (users (snd ?reg))"
  let ?a = "last (users (syncDatabase sample_env 50 empty_store))"
  let ?me = "JObj [(''id'', JNum 1), (''username'', JStr ''alice''),
                  (''email'', JStr ''alice@news.com''), (''role'', JStr ''publisher''),
                  (''profile'', JObj []), (''createdAt'', JNum 1), (''updatedAt'', JNum 1)]"
  note T = password_never_returned [OF sample_clean sample_hash]
  note clean = T [THEN conjunct1]
  note stored = T [THEN conjunct2, THEN conjunct1, rule_format]
  note own = T [THEN conjunct2, THEN conjunct2, THEN conjunct2, THEN conjunct2, THEN conjunct2,
      THEN conjunct1, rule_format]
  note blanked = T [THEN conjunct2, THEN conjunct2, THEN conjunct2, THEN conjunct2,
      THEN conjunct2, THEN conjunct2, THEN conjunct1, THEN spec, THEN mp, THEN conjunct1,
      rule_format]
  have m: "alice \<in> set (users sample_store)" "u_id alice = cl_id \<lparr>cl_id = 1, cl_username = ''alice'', cl_role = ''publisher''\<rparr>"
    by (simp_all add: sample_defs)
  from own [OF sample_wf alice_token m, of 50]
  have p: "serve sample_env 50 (Some ''Bearer alice'') Profile sample_store = ((200, ?me), sample_store)"
    by (simp add: alice_def)
  have new: "?u \<in> set (users (snd ?reg))" "?u \<notin> set (users sample_store)"
    by (simp_all add: route_defs model_defs sample_defs)
  from stored [OF new] have s: "password ?u = ''$2a$pw1''"
    by (auto simp: sample_env_def)
  have "clean_profiles empty_store" by (simp add: clean_profiles_def empty_store_def)
  note boot = password_never_returned [OF this sample_hash, THEN conjunct2, THEN conjunct2,
      THEN conjunct1, rule_format]
  have "?a \<in> set (users (syncDatabase sample_env 50 empty_store))" "?a \<notin> set (users empty_store)"
    by (simp_all add: syncDatabase_def model_defs empty_store_def sample_env_def)
  from boot [OF this] have b: "password ?a = ''$2a$publisher123''"
    by (simp add: sample_env_def)
  have "fst (serve sample_env 50 (Some ''Bearer alice'') Profile (scrub sample_store)) =
        fst (serve sample_env 50 (Some ''Bearer alice'') Profile sample_store)"
    by (rule blanked) (simp_all add: scrub_scrub)
  with p have n: "fst (serve sample_env 50 (Some ''Bearer alice'') Profile (scrub sample_store)) =
     (200, ?me)"
    by simp
  from sample_clean clean [of 50 "Some ''Bearer alice''" Profile] p s b n
  show ?thesis by simp
qed



text \<open>
  C10 on the sample deployment: \<open>alice\<close> publishes her draft (item 1) twice, and her
  already published item 4.
\<close>

theorem publish_idempotent_witness:
  "wf_store sample_store \<and>
   authenticateToken sample_env (Some ''Bearer alice'') =
     Inr \<lparr>cl_id = 1, cl_username = ''alice'', cl_role = ''publisher''\<rparr> \<and>
   status item1 = Some ''draft'' \<and> status item4 = Some ''published'' \<and>
   fst (fst (serve sample_env 50 (Some ''Bearer alice'') (PublishContent 1) sample_store)) = 200 \<and>
   fst (fst (serve sample_env 50 (Some ''Bearer alice'') (PublishContent 4) sample_store)) = 200 \<and>
   snd (serve sample_env 60 (Some ''Bearer alice'') (PublishContent 1)
         (snd (serve sample_env 50 (Some ''Bearer alice'') (PublishContent 1) sample_store))) =
     snd (serve sample_env 50 (Some ''Bearer alice'') (PublishContent 1) sample_store) \<and>
   map status (contents (snd (serve sample_env 50 (Some ''Bearer alice'') (PublishContent 1)
     sample_store))) =
     [Some ''published'', Some ''published'', Some ''published'', Some ''published'']"
proof -
  let ?u = "\<lparr>cl_id = 1, cl_username = ''alice'', cl_role = ''publisher''\<rparr>"
  let ?h = "Some ''Bearer alice''"
  let ?r1 = "serve sample_env 50 ?h (PublishContent 1) sample_store"
  let ?r4 = "serve sample_env 50 ?h (PublishContent 4) sample_store"
  have p: "cl_role ?u = ''publisher''" by simp
  have m1: "item1 \<in> set (contents sample_store)" "c_id item1 = 1" "publisherId item1 = cl_id ?u"
    by (simp_all add: sample_defs)
  have m4: "item4 \<in> set (contents sample_store)" "c_id item4 = 4" "publisherId item4 = cl_id ?u"
    by (simp_all add: sample_defs)
  have r1: "?r1 = (fst ?r1, snd ?r1)" and r4: "?r4 = (fst ?r4, snd ?r4)" by simp_all
  note one = publish_idempotent [OF sample_wf alice_token p m1 r1]
  note four = publish_idempotent [OF sample_wf alice_token p m4 r4]
  from one have a: "fst (fst ?r1) = 200" by blast
  from four have b: "fst (fst ?r4) = 200" by blast
  from one have c: "snd (serve sample_env 60 ?h (PublishContent 1) (snd ?r1)) = snd ?r1" by blast
  have d: "map status (contents (snd ?r1)) =
     [Some ''published'', Some ''published'', Some ''published'', Some ''published'']"
    by (simp add: route_defs model_defs sample_defs)
  have "status item1 = Some ''draft'' \<and> status item4 = Some ''published''" by (simp add: sample_defs)
  with sample_wf alice_token a b c d show ?thesis by blast
qed

end
